theory Spec2Isabelle
  imports Main "HOL-Library.Word"
begin

section \<open>The sideband filter driver (filter_sideband.c)\<close>

text \<open>
  The driver keeps three globals: the collection of filter device objects
  (\<open>FilterDeviceCollection\<close>), the wait lock that guards it
  (\<open>FilterDeviceCollectionLock\<close>) and the handle of the one control device
  (\<open>ControlDevice\<close>, initially NULL). Its callbacks are invoked by the
  framework (WDF). The embedding passes the state explicitly. What a
  framework call answers (a status, NULL or a pointer) is decided by the host
  and is a parameter of each callback; what a framework call does to the
  framework's objects is written out below, one function per call.
\<close>

subsection \<open>Platform types\<close>

text \<open>
  \<open>NTSTATUS\<close> is a signed 32-bit integer and \<open>NT_SUCCESS\<close> tests that it is
  not negative. The two status constants the source names have the platform's
  values. A handle or pointer is NULL or names an object of the framework.
\<close>

type_synonym NTSTATUS = "32 word"
type_synonym ULONG = "32 word"

datatype handle = NULL | Handle nat

type_synonym WDFDEVICE = handle
type_synonym PWDFDEVICE_INIT = handle

definition NT_SUCCESS :: "NTSTATUS \<Rightarrow> bool" where
  "NT_SUCCESS status = (0 \<le> sint status)"

definition STATUS_SUCCESS :: NTSTATUS where
  "STATUS_SUCCESS = 0"

definition STATUS_INSUFFICIENT_RESOURCES :: NTSTATUS where
  "STATUS_INSUFFICIENT_RESOURCES = 0xC000009A"

text \<open>
  Modelled from the spec: the device context \<open>FILTER_EXTENSION\<close> is declared
  in filter.h, which is not among the sources. The source reads and writes
  its one field \<open>SerialNo\<close>, the identifying tag of an instance, as a
  \<open>ULONG\<close>.
\<close>

record FILTER_EXTENSION =
  SerialNo :: ULONG

subsection \<open>Framework objects\<close>

text \<open>
  A \<open>WDFDEVICE_INIT\<close> structure for a control device, and the control device
  object made from it. Deleting the object releases its symbolic link and its
  queue with it.
\<close>

record device_init =
  exclusive :: bool
  name_assigned :: bool

record control_object =
  made_from :: "device_init option"
  symbolic_link :: bool
  default_queue :: bool
  finished_initializing :: bool

text \<open>
  The calls the driver makes, in the order it makes them. Each entry of the
  log is paired with the state of the wait lock at the time of the call.
\<close>

datatype action =
    WaitLockAcquire
  | WaitLockRelease
  | FdoInitQueryProperty NTSTATUS
  | FdoInitSetFilter
  | DeviceCreate NTSTATUS
  | CollectionAdd WDFDEVICE NTSTATUS
  | CollectionGetCount nat
  | CollectionGetItem nat
  | CollectionRemove WDFDEVICE
  | ControlDeviceInitAllocate
  | DeviceInitSetExclusive bool
  | DeviceInitAssignName NTSTATUS
  | ControlDeviceCreate NTSTATUS
  | DeviceCreateSymbolicLink NTSTATUS
  | IoQueueCreate NTSTATUS
  | ControlFinishInitializing WDFDEVICE
  | DeviceInitFree PWDFDEVICE_INIT
  | ObjectDelete WDFDEVICE
  | AssignControlDevice WDFDEVICE
  | KdPrintSerialNo ULONG
  | RequestCompleteWithInformation NTSTATUS nat

record state =
  FilterDeviceCollection :: "WDFDEVICE list"
  FilterDeviceCollectionLock :: bool
  ControlDevice :: WDFDEVICE
  next_handle :: nat
  filter_devices :: "WDFDEVICE list"
  extension :: "WDFDEVICE \<Rightarrow> FILTER_EXTENSION"
  device_inits :: "PWDFDEVICE_INIT \<rightharpoonup> device_init"
  control_objects :: "WDFDEVICE \<rightharpoonup> control_object"
  log :: "(bool \<times> action) list"

text \<open>
  The state after \<open>DriverEntry\<close>: the collection and the lock exist, the
  collection is empty, the lock is free, and \<open>ControlDevice\<close> is NULL. The
  framework hands out context memory filled with zeros.
\<close>

definition initial_state :: state where
  "initial_state =
     \<lparr> FilterDeviceCollection = [], FilterDeviceCollectionLock = False,
       ControlDevice = NULL, next_handle = 0, filter_devices = [],
       extension = (\<lambda>_. \<lparr> SerialNo = 0 \<rparr>), device_inits = Map.empty,
       control_objects = Map.empty, log = [] \<rparr>"

definition emit :: "action \<Rightarrow> state \<Rightarrow> state" where
  "emit a s = s\<lparr> log := log s @ [(FilterDeviceCollectionLock s, a)] \<rparr>"

text \<open>
  What the host answers during one \<open>FilterEvtDeviceAdd\<close>. The local
  \<open>serialNo\<close> of \<open>FilterEvtDeviceAdd\<close> is declared without an initial value:
  what it holds when the function is entered is whatever the stack held, an
  arbitrary 32-bit value that is a parameter of the call as well.
\<close>

record control_env =
  InitAllocate_ok :: bool
  AssignName_status :: NTSTATUS
  ControlCreate_status :: NTSTATUS
  SymbolicLink_status :: NTSTATUS
  QueueCreate_status :: NTSTATUS

record add_env =
  serialNo_on_entry :: ULONG
  QueryProperty_status :: NTSTATUS
  QueryProperty_value :: ULONG
  DeviceCreate_status :: NTSTATUS
  CollectionAdd_status :: NTSTATUS
  control :: control_env

subsection \<open>Framework calls\<close>

definition WdfWaitLockAcquire :: "state \<Rightarrow> state" where
  "WdfWaitLockAcquire s = (emit WaitLockAcquire s)\<lparr> FilterDeviceCollectionLock := True \<rparr>"

definition WdfWaitLockRelease :: "state \<Rightarrow> state" where
  "WdfWaitLockRelease s = (emit WaitLockRelease s)\<lparr> FilterDeviceCollectionLock := False \<rparr>"

text \<open>
  The framework keeps the count of a collection as a \<open>ULONG\<close>; a collection
  of device objects stays far below \<open>2 ^ 32\<close> items, so the count is the
  length of the list.
\<close>

definition WdfCollectionGetCount :: "state \<Rightarrow> nat \<times> state" where
  "WdfCollectionGetCount s =
     (length (FilterDeviceCollection s),
      emit (CollectionGetCount (length (FilterDeviceCollection s))) s)"

text \<open>An item is appended when the call succeeds; nothing is added when it fails.\<close>

definition WdfCollectionAdd :: "NTSTATUS \<Rightarrow> WDFDEVICE \<Rightarrow> state \<Rightarrow> NTSTATUS \<times> state" where
  "WdfCollectionAdd answer device s =
     (answer,
      (if NT_SUCCESS answer
       then (emit (CollectionAdd device answer) s)
              \<lparr> FilterDeviceCollection := FilterDeviceCollection s @ [device] \<rparr>
       else emit (CollectionAdd device answer) s))"

text \<open>Removing an item that is not in the collection leaves the collection as it is.\<close>

definition WdfCollectionRemove :: "WDFDEVICE \<Rightarrow> state \<Rightarrow> state" where
  "WdfCollectionRemove device s =
     (emit (CollectionRemove device) s)
       \<lparr> FilterDeviceCollection := remove1 device (FilterDeviceCollection s) \<rparr>"

text \<open>The item at an index, NULL when the index is not valid.\<close>

definition WdfCollectionGetItem :: "nat \<Rightarrow> state \<Rightarrow> WDFDEVICE \<times> state" where
  "WdfCollectionGetItem i s =
     ((if i < length (FilterDeviceCollection s) then FilterDeviceCollection s ! i else NULL),
      emit (CollectionGetItem i) s)"

text \<open>
  The property is written to the caller's buffer when the query succeeds; the
  buffer is left as it is when the query fails.
\<close>

definition WdfFdoInitQueryProperty ::
  "add_env \<Rightarrow> ULONG \<Rightarrow> state \<Rightarrow> (NTSTATUS \<times> ULONG) \<times> state" where
  "WdfFdoInitQueryProperty e buffer s =
     ((QueryProperty_status e,
       (if NT_SUCCESS (QueryProperty_status e) then QueryProperty_value e else buffer)),
      emit (FdoInitQueryProperty (QueryProperty_status e)) s)"

definition WdfFdoInitSetFilter :: "state \<Rightarrow> state" where
  "WdfFdoInitSetFilter s = emit FdoInitSetFilter s"

text \<open>
  Creating the filter device object: on success the framework hands out a new
  handle, and the object lives until the framework deletes it.
\<close>

definition WdfDeviceCreate :: "add_env \<Rightarrow> state \<Rightarrow> (NTSTATUS \<times> WDFDEVICE) \<times> state" where
  "WdfDeviceCreate e s =
     (if NT_SUCCESS (DeviceCreate_status e)
      then ((DeviceCreate_status e, Handle (next_handle s)),
            (emit (DeviceCreate (DeviceCreate_status e)) s)
              \<lparr> next_handle := Suc (next_handle s),
                filter_devices := filter_devices s @ [Handle (next_handle s)] \<rparr>)
      else ((DeviceCreate_status e, NULL), emit (DeviceCreate (DeviceCreate_status e)) s))"

definition WdfControlDeviceInitAllocate :: "control_env \<Rightarrow> state \<Rightarrow> PWDFDEVICE_INIT \<times> state" where
  "WdfControlDeviceInitAllocate e s =
     (if InitAllocate_ok e
      then (Handle (next_handle s),
            (emit ControlDeviceInitAllocate s)
              \<lparr> next_handle := Suc (next_handle s),
                device_inits := (device_inits s)
                  (Handle (next_handle s) \<mapsto> \<lparr> exclusive = True, name_assigned = False \<rparr>) \<rparr>)
      else (NULL, emit ControlDeviceInitAllocate s))"

definition update_init :: "PWDFDEVICE_INIT \<Rightarrow> (device_init \<Rightarrow> device_init) \<Rightarrow> state \<Rightarrow> state" where
  "update_init p f s =
     (case device_inits s p of
        None \<Rightarrow> s
      | Some d \<Rightarrow> s\<lparr> device_inits := (device_inits s)(p \<mapsto> f d) \<rparr>)"

definition WdfDeviceInitSetExclusive :: "PWDFDEVICE_INIT \<Rightarrow> bool \<Rightarrow> state \<Rightarrow> state" where
  "WdfDeviceInitSetExclusive p b s =
     update_init p (\<lambda>d. d\<lparr> exclusive := b \<rparr>) (emit (DeviceInitSetExclusive b) s)"

definition WdfDeviceInitAssignName :: "control_env \<Rightarrow> PWDFDEVICE_INIT \<Rightarrow> state \<Rightarrow> NTSTATUS \<times> state" where
  "WdfDeviceInitAssignName e p s =
     (AssignName_status e,
      (if NT_SUCCESS (AssignName_status e)
       then update_init p (\<lambda>d. d\<lparr> name_assigned := True \<rparr>)
              (emit (DeviceInitAssignName (AssignName_status e)) s)
       else emit (DeviceInitAssignName (AssignName_status e)) s))"

text \<open>
  Creating the control device: on success the framework takes the
  initialisation structure and sets the caller's pointer to NULL; on failure
  the structure stays with the caller and no object is made.
\<close>

definition WdfDeviceCreate_control ::
  "control_env \<Rightarrow> PWDFDEVICE_INIT \<Rightarrow> state
     \<Rightarrow> (NTSTATUS \<times> PWDFDEVICE_INIT \<times> WDFDEVICE) \<times> state" where
  "WdfDeviceCreate_control e p s =
     (if NT_SUCCESS (ControlCreate_status e)
      then ((ControlCreate_status e, NULL, Handle (next_handle s)),
            (emit (ControlDeviceCreate (ControlCreate_status e)) s)
              \<lparr> next_handle := Suc (next_handle s),
                device_inits := (device_inits s)(p := None),
                control_objects := (control_objects s)
                  (Handle (next_handle s) \<mapsto>
                     \<lparr> made_from = device_inits s p, symbolic_link = False,
                       default_queue = False, finished_initializing = False \<rparr>) \<rparr>)
      else ((ControlCreate_status e, p, NULL),
            emit (ControlDeviceCreate (ControlCreate_status e)) s))"

definition update_object :: "WDFDEVICE \<Rightarrow> (control_object \<Rightarrow> control_object) \<Rightarrow> state \<Rightarrow> state" where
  "update_object c f s =
     (case control_objects s c of
        None \<Rightarrow> s
      | Some obj \<Rightarrow> s\<lparr> control_objects := (control_objects s)(c \<mapsto> f obj) \<rparr>)"

definition WdfDeviceCreateSymbolicLink :: "control_env \<Rightarrow> WDFDEVICE \<Rightarrow> state \<Rightarrow> NTSTATUS \<times> state" where
  "WdfDeviceCreateSymbolicLink e c s =
     (SymbolicLink_status e,
      (if NT_SUCCESS (SymbolicLink_status e)
       then update_object c (\<lambda>obj. obj\<lparr> symbolic_link := True \<rparr>)
              (emit (DeviceCreateSymbolicLink (SymbolicLink_status e)) s)
       else emit (DeviceCreateSymbolicLink (SymbolicLink_status e)) s))"

definition WdfIoQueueCreate :: "control_env \<Rightarrow> WDFDEVICE \<Rightarrow> state \<Rightarrow> NTSTATUS \<times> state" where
  "WdfIoQueueCreate e c s =
     (QueueCreate_status e,
      (if NT_SUCCESS (QueueCreate_status e)
       then update_object c (\<lambda>obj. obj\<lparr> default_queue := True \<rparr>)
              (emit (IoQueueCreate (QueueCreate_status e)) s)
       else emit (IoQueueCreate (QueueCreate_status e)) s))"

definition WdfControlFinishInitializing :: "WDFDEVICE \<Rightarrow> state \<Rightarrow> state" where
  "WdfControlFinishInitializing c s =
     update_object c (\<lambda>obj. obj\<lparr> finished_initializing := True \<rparr>)
       (emit (ControlFinishInitializing c) s)"

definition WdfDeviceInitFree :: "PWDFDEVICE_INIT \<Rightarrow> state \<Rightarrow> state" where
  "WdfDeviceInitFree p s = (emit (DeviceInitFree p) s)\<lparr> device_inits := (device_inits s)(p := None) \<rparr>"

definition WdfObjectDelete :: "WDFDEVICE \<Rightarrow> state \<Rightarrow> state" where
  "WdfObjectDelete c s = (emit (ObjectDelete c) s)\<lparr> control_objects := (control_objects s)(c := None) \<rparr>"

subsection \<open>FilterDeleteControlDevice\<close>

definition assign_ControlDevice :: "WDFDEVICE \<Rightarrow> state \<Rightarrow> state" where
  "assign_ControlDevice v s = (emit (AssignControlDevice v) s)\<lparr> ControlDevice := v \<rparr>"

definition FilterDeleteControlDevice :: "WDFDEVICE \<Rightarrow> state \<Rightarrow> state" where
  "FilterDeleteControlDevice Device s =
     (if ControlDevice s \<noteq> NULL
      then assign_ControlDevice NULL (WdfObjectDelete (ControlDevice s) s)
      else s)"

subsection \<open>FilterEvtDeviceContextCleanup\<close>

definition FilterEvtDeviceContextCleanup :: "WDFDEVICE \<Rightarrow> state \<Rightarrow> state" where
  "FilterEvtDeviceContextCleanup Device s =
     (let s1 = WdfWaitLockAcquire s;
          (count, s2) = WdfCollectionGetCount s1;
          s3 = (if count = 1 then FilterDeleteControlDevice Device s2 else s2);
          s4 = WdfCollectionRemove Device s3
      in WdfWaitLockRelease s4)"

subsection \<open>FilterCreateControlDevice\<close>

text \<open>The code at the label \<open>Error\<close>, with the locals it reads.\<close>

definition FilterCreateControlDevice_Error ::
  "PWDFDEVICE_INIT \<Rightarrow> WDFDEVICE \<Rightarrow> NTSTATUS \<Rightarrow> state \<Rightarrow> NTSTATUS \<times> state" where
  "FilterCreateControlDevice_Error pInit controlDevice status s =
     (let s1 = (if pInit \<noteq> NULL then WdfDeviceInitFree pInit s else s);
          s2 = (if controlDevice \<noteq> NULL then WdfObjectDelete controlDevice s1 else s1)
      in (status, s2))"

text \<open>The first part: the count is read with the lock held, and the lock is released.\<close>

definition FilterCreateControlDevice_check :: "state \<Rightarrow> bool \<times> state" where
  "FilterCreateControlDevice_check s =
     (let bCreate = False;
          s1 = WdfWaitLockAcquire s;
          (count, s2) = WdfCollectionGetCount s1;
          bCreate = (if count = 1 then True else bCreate);
          s3 = WdfWaitLockRelease s2
      in (bCreate, s3))"

text \<open>
  The rest of the function, from the test of \<open>bCreate\<close> on.
  (\<open>WdfDeviceGetDriver\<close> reads the driver of \<open>Device\<close> and changes nothing.)
\<close>

definition FilterCreateControlDevice_create ::
  "control_env \<Rightarrow> WDFDEVICE \<Rightarrow> bool \<Rightarrow> state \<Rightarrow> NTSTATUS \<times> state" where
  "FilterCreateControlDevice_create e Device bCreate s =
     (if \<not> bCreate then (STATUS_SUCCESS, s)
      else
        (let controlDevice = NULL;
             (pInit, s1) = WdfControlDeviceInitAllocate e s
         in if pInit = NULL
            then FilterCreateControlDevice_Error pInit controlDevice
                   STATUS_INSUFFICIENT_RESOURCES s1
            else
              (let s2 = WdfDeviceInitSetExclusive pInit False s1;
                   (status, s3) = WdfDeviceInitAssignName e pInit s2
               in if \<not> NT_SUCCESS status
                  then FilterCreateControlDevice_Error pInit controlDevice status s3
                  else
                    (let ((status, pInit, controlDevice), s4) =
                           WdfDeviceCreate_control e pInit s3
                     in if \<not> NT_SUCCESS status
                        then FilterCreateControlDevice_Error pInit controlDevice status s4
                        else
                          (let (status, s5) = WdfDeviceCreateSymbolicLink e controlDevice s4
                           in if \<not> NT_SUCCESS status
                              then FilterCreateControlDevice_Error pInit controlDevice status s5
                              else
                                (let (status, s6) = WdfIoQueueCreate e controlDevice s5
                                 in if \<not> NT_SUCCESS status
                                    then FilterCreateControlDevice_Error pInit controlDevice
                                           status s6
                                    else
                                      (let s7 = WdfControlFinishInitializing controlDevice s6;
                                           s8 = assign_ControlDevice controlDevice s7
                                       in (STATUS_SUCCESS, s8))))))))"

definition FilterCreateControlDevice :: "control_env \<Rightarrow> WDFDEVICE \<Rightarrow> state \<Rightarrow> NTSTATUS \<times> state" where
  "FilterCreateControlDevice e Device s =
     (let (bCreate, s1) = FilterCreateControlDevice_check s
      in FilterCreateControlDevice_create e Device bCreate s1)"

subsection \<open>FilterEvtDeviceAdd\<close>

definition set_SerialNo :: "WDFDEVICE \<Rightarrow> ULONG \<Rightarrow> state \<Rightarrow> state" where
  "set_SerialNo device serialNo s =
     s\<lparr> extension := (extension s)(device := (extension s device)\<lparr> SerialNo := serialNo \<rparr>) \<rparr>"

definition FilterEvtDeviceAdd :: "add_env \<Rightarrow> state \<Rightarrow> NTSTATUS \<times> state" where
  "FilterEvtDeviceAdd e s =
     (let serialNo = serialNo_on_entry e;
          ((status, serialNo), s1) = WdfFdoInitQueryProperty e serialNo s;
          s2 = WdfFdoInitSetFilter s1;
          ((status, device), s3) = WdfDeviceCreate e s2
      in if \<not> NT_SUCCESS status then (status, s3)
         else
           (let s4 = set_SerialNo device serialNo s3;
                s5 = WdfWaitLockAcquire s4;
                (status, s6) = WdfCollectionAdd (CollectionAdd_status e) device s5;
                s7 = WdfWaitLockRelease s6;
                (status, s8) = FilterCreateControlDevice (control e) device s7
            in if \<not> NT_SUCCESS status then (STATUS_SUCCESS, s8) else (status, s8)))"

subsection \<open>FilterEvtIoDeviceControl\<close>

text \<open>
  A request carries the caller's output buffer. Completing it records the
  status and the number of bytes handed back; the response is that many bytes
  of the buffer.
\<close>

record request =
  output_buffer :: "8 word list"
  completion :: "(NTSTATUS \<times> nat) option"

definition response_payload :: "request \<Rightarrow> 8 word list" where
  "response_payload r =
     (case completion r of None \<Rightarrow> [] | Some (status, n) \<Rightarrow> take n (output_buffer r))"

datatype fault = NullHandle

definition WdfRequestCompleteWithInformation ::
  "NTSTATUS \<Rightarrow> nat \<Rightarrow> request \<Rightarrow> state \<Rightarrow> request \<times> state" where
  "WdfRequestCompleteWithInformation status n r s =
     (r\<lparr> completion := Some (status, n) \<rparr>, emit (RequestCompleteWithInformation status n) s)"

text \<open>
  The \<open>for\<close> loop over the collection. \<open>FilterGetData\<close> of a NULL handle is a
  fault.
\<close>

function FilterEvtIoDeviceControl_loop :: "nat \<Rightarrow> nat \<Rightarrow> state \<Rightarrow> fault + state" where
  "FilterEvtIoDeviceControl_loop i noItems s =
     (if i < noItems
      then (let (hFilterDevice, s1) = WdfCollectionGetItem i s
            in if hFilterDevice = NULL then Inl NullHandle
               else FilterEvtIoDeviceControl_loop (Suc i) noItems
                      (emit (KdPrintSerialNo (SerialNo (extension s1 hFilterDevice))) s1))
      else Inr s)"
  by pat_completeness auto
termination
  by (relation "measure (\<lambda>(i, noItems, s). noItems - i)") auto

declare FilterEvtIoDeviceControl_loop.simps [simp del]

definition FilterEvtIoDeviceControl :: "request \<Rightarrow> state \<Rightarrow> fault + (request \<times> state)" where
  "FilterEvtIoDeviceControl Request s =
     (let s1 = WdfWaitLockAcquire s;
          (noItems, s2) = WdfCollectionGetCount s1
      in (case FilterEvtIoDeviceControl_loop 0 noItems s2 of
            Inl f \<Rightarrow> Inl f
          | Inr s3 \<Rightarrow>
              (let s4 = WdfWaitLockRelease s3
               in Inr (WdfRequestCompleteWithInformation STATUS_SUCCESS 0 Request s4))))"

subsection \<open>The host: delivery of events\<close>

text \<open>
  The framework calls \<open>FilterEvtDeviceAdd\<close> when an instance appears, and the
  cleanup callback of a filter device object when it deletes that object. The
  callback is registered on the objects \<open>FilterEvtDeviceAdd\<close> creates, so it
  runs for live filter devices only; the object is gone afterwards.
\<close>

datatype event = InstanceAppears add_env | InstanceDisappears WDFDEVICE

definition deliver :: "event \<Rightarrow> state \<Rightarrow> state" where
  "deliver ev s =
     (case ev of
        InstanceAppears e \<Rightarrow> snd (FilterEvtDeviceAdd e s)
      | InstanceDisappears d \<Rightarrow>
          if d \<in> set (filter_devices s)
          then (FilterEvtDeviceContextCleanup d s)
                 \<lparr> filter_devices := remove1 d (filter_devices s) \<rparr>
          else s)"

fun run :: "event list \<Rightarrow> state \<Rightarrow> state" where
  "run [] s = s"
| "run (ev # evs) s = run evs (deliver ev s)"

text \<open>Every step of the creation protocol succeeds.\<close>

definition creates :: "control_env \<Rightarrow> bool" where
  "creates c =
     (InitAllocate_ok c \<and> NT_SUCCESS (AssignName_status c) \<and> NT_SUCCESS (ControlCreate_status c)
      \<and> NT_SUCCESS (SymbolicLink_status c) \<and> NT_SUCCESS (QueueCreate_status c))"

text \<open>
  An event during which neither the insertion into the collection nor a step
  of the creation protocol fails.
\<close>

definition flawless :: "event \<Rightarrow> bool" where
  "flawless ev =
     (case ev of
        InstanceAppears e \<Rightarrow> NT_SUCCESS (CollectionAdd_status e) \<and> creates (control e)
      | InstanceDisappears d \<Rightarrow> True)"

text \<open>The framework hands out handles it has not used.\<close>

definition unused_handles :: "state \<Rightarrow> bool" where
  "unused_handles s =
     (\<forall>n. next_handle s \<le> n \<longrightarrow>
        device_inits s (Handle n) = None \<and> control_objects s (Handle n) = None)"

text \<open>The log entries a call has added, and what they say.\<close>

definition logged_since :: "state \<Rightarrow> state \<Rightarrow> (bool \<times> action) list" where
  "logged_since s s' = drop (length (log s)) (log s')"

definition assignments :: "(bool \<times> action) list \<Rightarrow> WDFDEVICE list" where
  "assignments t = concat (map (\<lambda>x. case snd x of AssignControlDevice v \<Rightarrow> [v] | _ \<Rightarrow> []) t)"

definition printed :: "(bool \<times> action) list \<Rightarrow> ULONG list" where
  "printed t = concat (map (\<lambda>x. case snd x of KdPrintSerialNo v \<Rightarrow> [v] | _ \<Rightarrow> []) t)"

definition releases :: "(bool \<times> action) list \<Rightarrow> action list" where
  "releases t =
     filter (\<lambda>a. case a of DeviceInitFree p \<Rightarrow> True | ObjectDelete c \<Rightarrow> True | _ \<Rightarrow> False)
       (map snd t)"

definition creation_protocols :: "(bool \<times> action) list \<Rightarrow> nat" where
  "creation_protocols t = length (filter (\<lambda>x. snd x = ControlDeviceInitAllocate) t)"

definition registered_tags :: "state \<Rightarrow> ULONG list" where
  "registered_tags s = map (\<lambda>d. SerialNo (extension s d)) (FilterDeviceCollection s)"

definition dispatch_printed :: "request \<Rightarrow> state \<Rightarrow> ULONG list option" where
  "dispatch_printed r s =
     (case FilterEvtIoDeviceControl r s of
        Inl f \<Rightarrow> None
      | Inr (r', s') \<Rightarrow> Some (printed (logged_since s s')))"

definition dispatch_response :: "request \<Rightarrow> state \<Rightarrow> 8 word list option" where
  "dispatch_response r s =
     (case FilterEvtIoDeviceControl r s of
        Inl f \<Rightarrow> None
      | Inr (r', s') \<Rightarrow> Some (response_payload r'))"

subsection \<open>Concurrent instance-appears events\<close>

text \<open>
  Several threads run \<open>FilterEvtDeviceAdd\<close> at once. A thread is at its entry,
  or has left the first locked region (lines 249 to 258) with its device, or
  has left the locked region of \<open>FilterCreateControlDevice\<close> (lines 383 to
  389) with its \<open>bCreate\<close>, or has returned. The wait lock serialises the
  locked regions, so a thread moves from one of these points to the next in
  one step.
\<close>

datatype add_pc =
    AddEntry
  | AddRegistered WDFDEVICE
  | AddChecked WDFDEVICE bool
  | AddReturned NTSTATUS

definition add_step :: "add_env \<Rightarrow> add_pc \<Rightarrow> state \<Rightarrow> add_pc \<times> state" where
  "add_step e pc s =
     (case pc of
        AddEntry \<Rightarrow>
          (let serialNo = serialNo_on_entry e;
               ((status, serialNo), s1) = WdfFdoInitQueryProperty e serialNo s;
               s2 = WdfFdoInitSetFilter s1;
               ((status, device), s3) = WdfDeviceCreate e s2
           in if \<not> NT_SUCCESS status then (AddReturned status, s3)
              else
                (let s4 = set_SerialNo device serialNo s3;
                     s5 = WdfWaitLockAcquire s4;
                     (status, s6) = WdfCollectionAdd (CollectionAdd_status e) device s5;
                     s7 = WdfWaitLockRelease s6
                 in (AddRegistered device, s7)))
      | AddRegistered device \<Rightarrow>
          (let (bCreate, s1) = FilterCreateControlDevice_check s
           in (AddChecked device bCreate, s1))
      | AddChecked device bCreate \<Rightarrow>
          (let (status, s1) = FilterCreateControlDevice_create (control e) device bCreate s
           in (AddReturned (if \<not> NT_SUCCESS status then STATUS_SUCCESS else status), s1))
      | AddReturned status \<Rightarrow> (AddReturned status, s))"

text \<open>A schedule names, step by step, the thread that moves.\<close>

definition thread_step :: "add_env list \<Rightarrow> nat \<Rightarrow> add_pc list \<times> state \<Rightarrow> add_pc list \<times> state" where
  "thread_step envs i cfg =
     (if i < length (fst cfg) \<and> i < length envs
      then (let (pc, s) = add_step (envs ! i) (fst cfg ! i) (snd cfg)
            in ((fst cfg)[i := pc], s))
      else cfg)"

fun run_schedule :: "add_env list \<Rightarrow> nat list \<Rightarrow> add_pc list \<times> state \<Rightarrow> add_pc list \<times> state" where
  "run_schedule envs [] cfg = cfg"
| "run_schedule envs (i # sched) cfg = run_schedule envs sched (thread_step envs i cfg)"

subsection \<open>Hosts used in the examples\<close>

definition obliging :: control_env where
  "obliging =
     \<lparr> InitAllocate_ok = True, AssignName_status = STATUS_SUCCESS,
       ControlCreate_status = STATUS_SUCCESS, SymbolicLink_status = STATUS_SUCCESS,
       QueueCreate_status = STATUS_SUCCESS \<rparr>"

definition appears :: "ULONG \<Rightarrow> add_env" where
  "appears tag =
     \<lparr> serialNo_on_entry = 0xCCCCCCCC,
       QueryProperty_status = STATUS_SUCCESS, QueryProperty_value = tag,
       DeviceCreate_status = STATUS_SUCCESS, CollectionAdd_status = STATUS_SUCCESS,
       control = obliging \<rparr>"

definition STATUS_UNSUCCESSFUL :: NTSTATUS where
  "STATUS_UNSUCCESSFUL = 0xC0000001"

definition STATUS_OBJECT_NAME_COLLISION :: NTSTATUS where
  "STATUS_OBJECT_NAME_COLLISION = 0xC0000035"

text \<open>The framework has no memory for the initialisation structure.\<close>

definition appears_no_channel :: "ULONG \<Rightarrow> add_env" where
  "appears_no_channel tag = (appears tag)\<lparr> control := obliging\<lparr> InitAllocate_ok := False \<rparr> \<rparr>"

text \<open>The collection cannot grow.\<close>

definition appears_unregistered :: "ULONG \<Rightarrow> add_env" where
  "appears_unregistered tag =
     (appears tag)\<lparr> CollectionAdd_status := STATUS_INSUFFICIENT_RESOURCES \<rparr>"

text \<open>The property query fails while the local \<open>serialNo\<close> holds \<open>w\<close>.\<close>

definition appears_unidentified :: "ULONG \<Rightarrow> add_env" where
  "appears_unidentified w =
     (appears 0)\<lparr> serialNo_on_entry := w, QueryProperty_status := STATUS_UNSUCCESSFUL \<rparr>"

text \<open>
  A second instance appears while the control device of the first one is
  alive: the collection cannot grow, and the fixed device name is in use, so
  the framework refuses to create a second control device.
\<close>

definition name_taken :: control_env where
  "name_taken = obliging\<lparr> ControlCreate_status := STATUS_OBJECT_NAME_COLLISION \<rparr>"

definition second_unregistered :: add_env where
  "second_unregistered =
     (appears 20)\<lparr> CollectionAdd_status := STATUS_INSUFFICIENT_RESOURCES,
                   control := name_taken \<rparr>"

text \<open>The symbolic link name is in use.\<close>

definition alias_taken :: control_env where
  "alias_taken = obliging\<lparr> SymbolicLink_status := STATUS_OBJECT_NAME_COLLISION \<rparr>"

text \<open>
  The state in which \<open>FilterEvtDeviceAdd\<close> calls \<open>FilterCreateControlDevice\<close>
  for the first instance.
\<close>

definition first_registered :: state where
  "first_registered = snd (add_step (appears 10) AddEntry initial_state)"

definition one_instance :: state where
  "one_instance = run [InstanceAppears (appears 10)] initial_state"

definition two_instances :: state where
  "two_instances = run [InstanceAppears (appears 10), InstanceAppears (appears 20)] initial_state"

text \<open>
  The state in which \<open>FilterEvtDeviceAdd\<close> calls \<open>FilterCreateControlDevice\<close>
  for a second instance that could not be inserted into the collection, while
  the first instance is registered and its control device is alive.
\<close>

definition second_call_state :: state where
  "second_call_state = snd (add_step second_unregistered AddEntry one_instance)"

definition query :: request where
  "query = \<lparr> output_buffer = [0, 0, 0, 0], completion = None \<rparr>"

subsection \<open>Invariants and auxiliary notions\<close>

definition channel_has_instance :: "state \<Rightarrow> bool" where
  "channel_has_instance s = (ControlDevice s \<noteq> NULL \<longrightarrow> FilterDeviceCollection s \<noteq> [])"

definition channel_tracks_registry :: "state \<Rightarrow> bool" where
  "channel_tracks_registry s =
     (filter_devices s = FilterDeviceCollection s
      \<and> (ControlDevice s \<noteq> NULL \<longleftrightarrow> FilterDeviceCollection s \<noteq> []))"

text \<open>What the loop of the request handler logs for the items from \<open>i\<close> up to \<open>n\<close>.\<close>

definition visits :: "state \<Rightarrow> nat \<Rightarrow> nat \<Rightarrow> (bool \<times> action) list" where
  "visits s i n =
     concat (map (\<lambda>j. [(FilterDeviceCollectionLock s, CollectionGetItem j),
                        (FilterDeviceCollectionLock s,
                         KdPrintSerialNo (SerialNo (extension s (FilterDeviceCollection s ! j))))])
               [i..<n])"

section \<open>Properties of the callbacks\<close>

subsection \<open>What each callback does to the state\<close>

lemmas wdf_defs = emit_def WdfWaitLockAcquire_def WdfWaitLockRelease_def WdfCollectionGetCount_def
  WdfCollectionAdd_def WdfCollectionRemove_def WdfCollectionGetItem_def WdfFdoInitQueryProperty_def
  WdfFdoInitSetFilter_def WdfDeviceCreate_def WdfControlDeviceInitAllocate_def update_init_def
  WdfDeviceInitSetExclusive_def WdfDeviceInitAssignName_def WdfDeviceCreate_control_def
  update_object_def WdfDeviceCreateSymbolicLink_def WdfIoQueueCreate_def
  WdfControlFinishInitializing_def WdfDeviceInitFree_def WdfObjectDelete_def assign_ControlDevice_def
  set_SerialNo_def

lemmas create_defs = FilterCreateControlDevice_create_def FilterCreateControlDevice_Error_def
  wdf_defs Let_def

lemma NT_SUCCESS_STATUS_SUCCESS: "NT_SUCCESS STATUS_SUCCESS"
  by (simp add: NT_SUCCESS_def STATUS_SUCCESS_def)

lemma not_NT_SUCCESS_INSUFFICIENT: "\<not> NT_SUCCESS STATUS_INSUFFICIENT_RESOURCES"
  by (simp add: NT_SUCCESS_def STATUS_INSUFFICIENT_RESOURCES_def)

lemma check_eq:
  "FilterCreateControlDevice_check s =
     (length (FilterDeviceCollection s) = 1,
      s\<lparr> FilterDeviceCollectionLock := False,
         log := log s @ [(FilterDeviceCollectionLock s, WaitLockAcquire),
                         (True, CollectionGetCount (length (FilterDeviceCollection s))),
                         (True, WaitLockRelease)] \<rparr>)"
  by (simp add: FilterCreateControlDevice_check_def wdf_defs Let_def)

lemma create_skip: "FilterCreateControlDevice_create e d False s = (STATUS_SUCCESS, s)"
  by (simp add: FilterCreateControlDevice_create_def)

lemma create_status_iff:
  "fst (FilterCreateControlDevice_create e d True s) =
     (if creates e then STATUS_SUCCESS else fst (FilterCreateControlDevice_create e d True s))
   \<and> (\<not> creates e \<longrightarrow> \<not> NT_SUCCESS (fst (FilterCreateControlDevice_create e d True s)))"
  by (simp add: create_defs creates_def not_NT_SUCCESS_INSUFFICIENT split: prod.splits)

lemma create_collection:
  "FilterDeviceCollection (snd (FilterCreateControlDevice_create e d b s)) = FilterDeviceCollection s"
  by (simp add: create_defs split: prod.splits option.splits)

lemma create_filter_devices:
  "filter_devices (snd (FilterCreateControlDevice_create e d b s)) = filter_devices s"
  by (simp add: create_defs split: prod.splits option.splits)

lemma create_extension:
  "extension (snd (FilterCreateControlDevice_create e d b s)) = extension s"
  by (simp add: create_defs split: prod.splits option.splits)

lemma create_lock:
  "FilterDeviceCollectionLock (snd (FilterCreateControlDevice_create e d b s)) = FilterDeviceCollectionLock s"
  by (simp add: create_defs split: prod.splits option.splits)

lemma create_ControlDevice:
  "ControlDevice (snd (FilterCreateControlDevice_create e d b s)) =
     (if b \<and> creates e then Handle (Suc (next_handle s)) else ControlDevice s)"
  by (simp add: create_defs creates_def split: prod.splits option.splits)

lemma create_log_prefix:
  "\<exists>t. log (snd (FilterCreateControlDevice_create e d b s)) = log s @ t
     \<and> list_all (\<lambda>x. fst x = FilterDeviceCollectionLock s) t
     \<and> assignments t = (if b \<and> creates e then [Handle (Suc (next_handle s))] else [])
     \<and> creation_protocols t = (if b then 1 else 0)"
  by (simp add: create_defs creates_def assignments_def creation_protocols_def split: prod.splits option.splits)


lemma FilterCreateControlDevice_eq:
  "FilterCreateControlDevice e d s =
     FilterCreateControlDevice_create e d (length (FilterDeviceCollection s) = 1)
       (snd (FilterCreateControlDevice_check s))"
  by (simp add: FilterCreateControlDevice_def check_eq)

lemma FilterCreateControlDevice_collection:
  "FilterDeviceCollection (snd (FilterCreateControlDevice e d s)) = FilterDeviceCollection s"
  by (simp add: FilterCreateControlDevice_eq create_collection check_eq)

lemma FilterCreateControlDevice_filter_devices:
  "filter_devices (snd (FilterCreateControlDevice e d s)) = filter_devices s"
  by (simp add: FilterCreateControlDevice_eq create_filter_devices check_eq)

lemma FilterCreateControlDevice_extension:
  "extension (snd (FilterCreateControlDevice e d s)) = extension s"
  by (simp add: FilterCreateControlDevice_eq create_extension check_eq)

lemma FilterCreateControlDevice_ControlDevice:
  "ControlDevice (snd (FilterCreateControlDevice e d s)) =
     (if length (FilterDeviceCollection s) = 1 \<and> creates e
      then Handle (Suc (next_handle s)) else ControlDevice s)"
  by (simp add: FilterCreateControlDevice_eq create_ControlDevice check_eq)

lemma FilterCreateControlDevice_status:
  "fst (FilterCreateControlDevice e d s) = STATUS_SUCCESS
   \<or> \<not> NT_SUCCESS (fst (FilterCreateControlDevice e d s))"
  using create_status_iff [of e d] create_skip [of e d]
  by (cases "length (FilterDeviceCollection s) = 1"; cases "creates e")
     (simp_all add: FilterCreateControlDevice_eq)

lemma FilterCreateControlDevice_fails_iff:
  "NT_SUCCESS (fst (FilterCreateControlDevice e d s)) \<longleftrightarrow>
     length (FilterDeviceCollection s) \<noteq> 1 \<or> creates e"
  using create_status_iff [of e d] create_skip [of e d] NT_SUCCESS_STATUS_SUCCESS
  by (cases "length (FilterDeviceCollection s) = 1"; cases "creates e")
     (simp_all add: FilterCreateControlDevice_eq)

lemma add_entry_eq:
  "add_step e AddEntry s =
     (if \<not> NT_SUCCESS (DeviceCreate_status e)
      then (AddReturned (DeviceCreate_status e),
            s\<lparr> log := log s @
                 [(FilterDeviceCollectionLock s, FdoInitQueryProperty (QueryProperty_status e)),
                  (FilterDeviceCollectionLock s, FdoInitSetFilter),
                  (FilterDeviceCollectionLock s, DeviceCreate (DeviceCreate_status e))] \<rparr>)
      else (AddRegistered (Handle (next_handle s)),
            s\<lparr> FilterDeviceCollection :=
                 (if NT_SUCCESS (CollectionAdd_status e)
                  then FilterDeviceCollection s @ [Handle (next_handle s)]
                  else FilterDeviceCollection s),
               FilterDeviceCollectionLock := False,
               next_handle := Suc (next_handle s),
               filter_devices := filter_devices s @ [Handle (next_handle s)],
               extension := (extension s)
                 (Handle (next_handle s) := (extension s (Handle (next_handle s)))
                    \<lparr> SerialNo := (if NT_SUCCESS (QueryProperty_status e)
                                   then QueryProperty_value e else serialNo_on_entry e) \<rparr>),
               log := log s @
                 [(FilterDeviceCollectionLock s, FdoInitQueryProperty (QueryProperty_status e)),
                  (FilterDeviceCollectionLock s, FdoInitSetFilter),
                  (FilterDeviceCollectionLock s, DeviceCreate (DeviceCreate_status e)),
                  (FilterDeviceCollectionLock s, WaitLockAcquire),
                  (True, CollectionAdd (Handle (next_handle s)) (CollectionAdd_status e)),
                  (True, WaitLockRelease)] \<rparr>))"
  by (simp add: add_step_def wdf_defs Let_def)

lemma FilterEvtDeviceAdd_steps:
  "FilterEvtDeviceAdd e s =
     (case add_step e AddEntry s of
        (AddRegistered device, s7) \<Rightarrow>
          (let (status, s8) = FilterCreateControlDevice (control e) device s7
           in (if \<not> NT_SUCCESS status then STATUS_SUCCESS else status, s8))
      | (AddReturned status, s3) \<Rightarrow> (status, s3)
      | (pc, s') \<Rightarrow> (STATUS_SUCCESS, s'))"
  by (simp add: FilterEvtDeviceAdd_def add_step_def wdf_defs Let_def split: prod.splits)

lemma FilterEvtDeviceAdd_created:
  "NT_SUCCESS (DeviceCreate_status e) \<Longrightarrow>
   FilterEvtDeviceAdd e s =
     (STATUS_SUCCESS,
      snd (FilterCreateControlDevice (control e) (Handle (next_handle s)) (snd (add_step e AddEntry s))))"
  using FilterCreateControlDevice_status
    [of "control e" "Handle (next_handle s)" "snd (add_step e AddEntry s)"]
  by (auto simp add: FilterEvtDeviceAdd_steps add_entry_eq split: prod.splits)

lemma FilterEvtDeviceAdd_refused:
  "\<not> NT_SUCCESS (DeviceCreate_status e) \<Longrightarrow>
   FilterEvtDeviceAdd e s =
     (DeviceCreate_status e,
      s\<lparr> log := log s @
           [(FilterDeviceCollectionLock s, FdoInitQueryProperty (QueryProperty_status e)),
            (FilterDeviceCollectionLock s, FdoInitSetFilter),
            (FilterDeviceCollectionLock s, DeviceCreate (DeviceCreate_status e))] \<rparr>)"
  by (simp add: FilterEvtDeviceAdd_steps add_entry_eq)

lemma cleanup_eq:
  "FilterEvtDeviceContextCleanup d s =
     s\<lparr> FilterDeviceCollection := remove1 d (FilterDeviceCollection s),
        FilterDeviceCollectionLock := False,
        ControlDevice := (if length (FilterDeviceCollection s) = 1 then NULL else ControlDevice s),
        control_objects :=
          (if length (FilterDeviceCollection s) = 1 \<and> ControlDevice s \<noteq> NULL
           then (control_objects s)(ControlDevice s := None) else control_objects s),
        log := log s @
          (FilterDeviceCollectionLock s, WaitLockAcquire)
          # (True, CollectionGetCount (length (FilterDeviceCollection s)))
          # (if length (FilterDeviceCollection s) = 1 \<and> ControlDevice s \<noteq> NULL
             then [(True, ObjectDelete (ControlDevice s)), (True, AssignControlDevice NULL)]
             else [])
          @ [(True, CollectionRemove d), (True, WaitLockRelease)] \<rparr>"
  by (simp add: FilterEvtDeviceContextCleanup_def FilterDeleteControlDevice_def wdf_defs Let_def)


lemma FilterEvtDeviceAdd_collection:
  "FilterDeviceCollection (snd (FilterEvtDeviceAdd e s)) =
     (if NT_SUCCESS (DeviceCreate_status e) \<and> NT_SUCCESS (CollectionAdd_status e)
      then FilterDeviceCollection s @ [Handle (next_handle s)]
      else FilterDeviceCollection s)"
  by (cases "NT_SUCCESS (DeviceCreate_status e)")
     (simp_all add: FilterEvtDeviceAdd_created FilterEvtDeviceAdd_refused
        FilterCreateControlDevice_collection add_entry_eq)

lemma FilterEvtDeviceAdd_filter_devices:
  "filter_devices (snd (FilterEvtDeviceAdd e s)) =
     (if NT_SUCCESS (DeviceCreate_status e)
      then filter_devices s @ [Handle (next_handle s)]
      else filter_devices s)"
  by (cases "NT_SUCCESS (DeviceCreate_status e)")
     (simp_all add: FilterEvtDeviceAdd_created FilterEvtDeviceAdd_refused
        FilterCreateControlDevice_filter_devices add_entry_eq)

lemma FilterEvtDeviceAdd_ControlDevice:
  "ControlDevice (snd (FilterEvtDeviceAdd e s)) =
     (if NT_SUCCESS (DeviceCreate_status e) \<and> creates (control e)
         \<and> length (FilterDeviceCollection (snd (FilterEvtDeviceAdd e s))) = 1
      then Handle (Suc (Suc (next_handle s)))
      else ControlDevice s)"
  by (cases "NT_SUCCESS (DeviceCreate_status e)")
     (simp_all add: FilterEvtDeviceAdd_created FilterEvtDeviceAdd_refused
        FilterCreateControlDevice_ControlDevice FilterCreateControlDevice_collection add_entry_eq)

subsection \<open>Invariants of the delivery of events\<close>

lemma remove1_keeps_one: "length xs \<noteq> 1 \<Longrightarrow> xs \<noteq> [] \<Longrightarrow> remove1 d xs \<noteq> []"
  by (cases xs) (auto split: if_splits)

lemma deliver_channel_has_instance:
  "channel_has_instance s \<Longrightarrow> channel_has_instance (deliver ev s)"
proof (cases ev)
  case (InstanceAppears e)
  then show "channel_has_instance s \<Longrightarrow> ?thesis"
    by (auto simp add: deliver_def channel_has_instance_def FilterEvtDeviceAdd_ControlDevice
        FilterEvtDeviceAdd_collection split: if_splits)
next
  case (InstanceDisappears d)
  then show "channel_has_instance s \<Longrightarrow> ?thesis"
    by (auto simp add: deliver_def channel_has_instance_def cleanup_eq remove1_keeps_one)
qed

lemma run_channel_has_instance:
  "channel_has_instance s \<Longrightarrow> channel_has_instance (run evs s)"
  by (induction evs arbitrary: s) (simp_all add: deliver_channel_has_instance)

lemma deliver_channel_tracks_registry:
  "channel_tracks_registry s \<Longrightarrow> flawless ev \<Longrightarrow> channel_tracks_registry (deliver ev s)"
proof (cases ev)
  case (InstanceAppears e)
  then show "channel_tracks_registry s \<Longrightarrow> flawless ev \<Longrightarrow> ?thesis"
    by (auto simp add: deliver_def channel_tracks_registry_def flawless_def
        FilterEvtDeviceAdd_ControlDevice FilterEvtDeviceAdd_collection
        FilterEvtDeviceAdd_filter_devices split: if_splits)
next
  case (InstanceDisappears d)
  then show "channel_tracks_registry s \<Longrightarrow> flawless ev \<Longrightarrow> ?thesis"
    by (auto simp add: deliver_def channel_tracks_registry_def cleanup_eq remove1_keeps_one
        length_Suc_conv)
qed

lemma run_channel_tracks_registry:
  "channel_tracks_registry s \<Longrightarrow> list_all flawless evs \<Longrightarrow> channel_tracks_registry (run evs s)"
  by (induction evs arbitrary: s) (simp_all add: deliver_channel_tracks_registry)

subsection \<open>Status and device context after \<open>FilterEvtDeviceAdd\<close>\<close>

lemma FilterEvtDeviceAdd_status:
  "fst (FilterEvtDeviceAdd e s) =
     (if NT_SUCCESS (DeviceCreate_status e) then STATUS_SUCCESS else DeviceCreate_status e)"
  by (simp add: FilterEvtDeviceAdd_created FilterEvtDeviceAdd_refused)

lemma FilterEvtDeviceAdd_extension:
  "extension (snd (FilterEvtDeviceAdd e s)) =
     (if NT_SUCCESS (DeviceCreate_status e)
      then (extension s)
             (Handle (next_handle s) := (extension s (Handle (next_handle s)))
                \<lparr> SerialNo := (if NT_SUCCESS (QueryProperty_status e)
                               then QueryProperty_value e else serialNo_on_entry e) \<rparr>)
      else extension s)"
  by (cases "NT_SUCCESS (DeviceCreate_status e)")
     (simp_all add: FilterEvtDeviceAdd_created FilterEvtDeviceAdd_refused
        FilterCreateControlDevice_extension add_entry_eq)

subsection \<open>The creation protocol: roll-back and publication\<close>

lemma create_rollback:
  assumes "unused_handles s" and "\<not> creates e"
  shows "device_inits (snd (FilterCreateControlDevice_create e d True s)) = device_inits s
       \<and> control_objects (snd (FilterCreateControlDevice_create e d True s)) = control_objects s"
proof -
  have a: "device_inits s (Handle (next_handle s)) = None"
    and b: "control_objects s (Handle (Suc (next_handle s))) = None"
    using assms(1) by (simp_all add: unused_handles_def)
  show ?thesis
    using assms(2) a b
    by (simp add: create_defs creates_def fun_upd_idem split: prod.splits)
qed


lemma create_rollback_last:
  assumes "\<not> creates e" and "InitAllocate_ok e"
  shows "last (log (snd (FilterCreateControlDevice_create e d True s))) =
           (FilterDeviceCollectionLock s,
            if NT_SUCCESS (AssignName_status e) \<and> NT_SUCCESS (ControlCreate_status e)
            then ObjectDelete (Handle (Suc (next_handle s)))
            else DeviceInitFree (Handle (next_handle s)))"
  using assms by (simp add: create_defs creates_def split: prod.splits)

lemma create_releases:
  "releases (drop (length (log s)) (log (snd (FilterCreateControlDevice_create e d True s)))) =
     (if creates e \<or> \<not> InitAllocate_ok e then []
      else if NT_SUCCESS (AssignName_status e) \<and> NT_SUCCESS (ControlCreate_status e)
           then [ObjectDelete (Handle (Suc (next_handle s)))]
           else [DeviceInitFree (Handle (next_handle s))])"
  by (simp add: create_defs creates_def releases_def split: prod.splits)

lemma create_published:
  assumes "creates e"
  shows "\<exists>pre. log (snd (FilterCreateControlDevice_create e d True s)) =
           log s @ pre @
             [(FilterDeviceCollectionLock s, ControlFinishInitializing (Handle (Suc (next_handle s)))),
              (FilterDeviceCollectionLock s, AssignControlDevice (Handle (Suc (next_handle s))))]
           \<and> assignments pre = []"
    and "control_objects (snd (FilterCreateControlDevice_create e d True s))
           (Handle (Suc (next_handle s))) =
         Some \<lparr> made_from = Some \<lparr> exclusive = False, name_assigned = True \<rparr>,
                symbolic_link = True, default_queue = True, finished_initializing = True \<rparr>"
  using assms by (simp_all add: create_defs creates_def assignments_def split: prod.splits)


lemma assignments_append: "assignments (a @ b) = assignments a @ assignments b"
  by (simp add: assignments_def)

lemma create_unpublished:
  "\<not> (b \<and> creates e) \<Longrightarrow>
   assignments (drop (length (log s)) (log (snd (FilterCreateControlDevice_create e d b s)))) = []"
  by (simp add: create_defs creates_def assignments_def split: prod.splits)

lemma logged_since_check:
  "log s' = log (snd (FilterCreateControlDevice_check s)) @ t \<Longrightarrow>
   logged_since s s' =
     [(FilterDeviceCollectionLock s, WaitLockAcquire),
      (True, CollectionGetCount (length (FilterDeviceCollection s))),
      (True, WaitLockRelease)] @ t"
  by (simp add: logged_since_def check_eq)

lemma FilterCreateControlDevice_log:
  "\<exists>t. logged_since s (snd (FilterCreateControlDevice e d s)) =
         [(FilterDeviceCollectionLock s, WaitLockAcquire),
          (True, CollectionGetCount (length (FilterDeviceCollection s))),
          (True, WaitLockRelease)] @ t
       \<and> t = drop (length (log (snd (FilterCreateControlDevice_check s))))
                 (log (snd (FilterCreateControlDevice e d s)))
       \<and> list_all (\<lambda>x. \<not> fst x) t
       \<and> creation_protocols t = (if length (FilterDeviceCollection s) = 1 then 1 else 0)"
proof -
  obtain t where t: "log (snd (FilterCreateControlDevice e d s)) =
      log (snd (FilterCreateControlDevice_check s)) @ t"
    and l: "list_all (\<lambda>x. fst x = FilterDeviceCollectionLock (snd (FilterCreateControlDevice_check s))) t"
    and c: "creation_protocols t = (if length (FilterDeviceCollection s) = 1 then 1 else 0)"
    using create_log_prefix [of e d "length (FilterDeviceCollection s) = 1"
        "snd (FilterCreateControlDevice_check s)"]
    by (auto simp add: FilterCreateControlDevice_eq)
  have "list_all (\<lambda>x. \<not> fst x) t"
    using l by (simp add: check_eq)
  then show ?thesis
    using logged_since_check [OF t] c by (simp add: t)
qed

lemma releases_append: "releases (a @ b) = releases a @ releases b"
  by (simp add: releases_def)

lemma FilterCreateControlDevice_releases:
  assumes "length (FilterDeviceCollection s) = 1"
  shows "releases (logged_since s (snd (FilterCreateControlDevice e d s))) =
     (if creates e \<or> \<not> InitAllocate_ok e then []
      else if NT_SUCCESS (AssignName_status e) \<and> NT_SUCCESS (ControlCreate_status e)
           then [ObjectDelete (Handle (Suc (next_handle s)))]
           else [DeviceInitFree (Handle (next_handle s))])"
proof -
  obtain t where t: "logged_since s (snd (FilterCreateControlDevice e d s)) =
         [(FilterDeviceCollectionLock s, WaitLockAcquire),
          (True, CollectionGetCount (length (FilterDeviceCollection s))),
          (True, WaitLockRelease)] @ t"
    and d: "t = drop (length (log (snd (FilterCreateControlDevice_check s))))
                 (log (snd (FilterCreateControlDevice e d s)))"
    using FilterCreateControlDevice_log [of s e d] by blast
  have nh: "next_handle (snd (FilterCreateControlDevice_check s)) = next_handle s"
    by (simp add: check_eq)
  have body: "releases t =
     (if creates e \<or> \<not> InitAllocate_ok e then []
      else if NT_SUCCESS (AssignName_status e) \<and> NT_SUCCESS (ControlCreate_status e)
           then [ObjectDelete (Handle (Suc (next_handle s)))]
           else [DeviceInitFree (Handle (next_handle s))])"
    unfolding d using assms create_releases [of "snd (FilterCreateControlDevice_check s)" e d]
    by (simp add: FilterCreateControlDevice_eq nh)
  have head: "releases [(FilterDeviceCollectionLock s, WaitLockAcquire),
          (True, CollectionGetCount (length (FilterDeviceCollection s))),
          (True, WaitLockRelease)] = []"
    by (simp add: releases_def)
  show ?thesis
    unfolding t releases_append head body by simp
qed

subsection \<open>The request handler\<close>

lemma visits_same:
  "FilterDeviceCollection s' = FilterDeviceCollection s \<Longrightarrow>
   FilterDeviceCollectionLock s' = FilterDeviceCollectionLock s \<Longrightarrow>
   extension s' = extension s \<Longrightarrow> visits s' i n = visits s i n"
  by (simp add: visits_def)

lemma visits_step:
  "i < n \<Longrightarrow>
   visits s i n =
     (FilterDeviceCollectionLock s, CollectionGetItem i)
     # (FilterDeviceCollectionLock s,
        KdPrintSerialNo (SerialNo (extension s (FilterDeviceCollection s ! i))))
     # visits s (Suc i) n"
  by (simp add: visits_def upt_conv_Cons)

lemma loop_eq:
  "NULL \<notin> set (FilterDeviceCollection s) \<Longrightarrow> noItems \<le> length (FilterDeviceCollection s) \<Longrightarrow>
   FilterEvtIoDeviceControl_loop i noItems s = Inr (s\<lparr> log := log s @ visits s i noItems \<rparr>)"
proof (induction i noItems s rule: FilterEvtIoDeviceControl_loop.induct)
  case (1 i noItems s)
  show ?case
  proof (cases "i < noItems")
    case False
    then show ?thesis
      by (simp add: FilterEvtIoDeviceControl_loop.simps [of i] visits_def)
  next
    case True
    let ?h = "FilterDeviceCollection s ! i"
    let ?s1 = "emit (CollectionGetItem i) s"
    let ?s2 = "emit (KdPrintSerialNo (SerialNo (extension ?s1 ?h))) ?s1"
    have get: "WdfCollectionGetItem i s = (?h, ?s1)"
      using True "1.prems" by (simp add: WdfCollectionGetItem_def)
    have nn: "?h \<noteq> NULL"
      using True "1.prems" by (metis nth_mem less_le_trans)
    have ih: "FilterEvtIoDeviceControl_loop (Suc i) noItems ?s2 =
                Inr (?s2\<lparr> log := log ?s2 @ visits ?s2 (Suc i) noItems \<rparr>)"
      using "1.IH" [OF True refl get [symmetric] nn] "1.prems" by (simp add: emit_def)
    have v: "visits ?s2 (Suc i) noItems = visits s (Suc i) noItems"
      by (rule visits_same) (simp_all add: emit_def)
    show ?thesis
      using True nn
      by (simp add: FilterEvtIoDeviceControl_loop.simps [of i] get ih v visits_step [OF True])
         (simp add: emit_def)
  qed
qed

lemma printed_pairs:
  "printed (concat (map (\<lambda>j. [(b, CollectionGetItem j), (b, KdPrintSerialNo (f j))]) js)) = map f js"
  by (induction js) (simp_all add: printed_def)

lemma printed_visits:
  "printed (visits s 0 (length (FilterDeviceCollection s))) = registered_tags s"
proof -
  have "map (\<lambda>j. SerialNo (extension s (FilterDeviceCollection s ! j)))
          [0..<length (FilterDeviceCollection s)] =
        map (\<lambda>d. SerialNo (extension s d))
          (map (\<lambda>j. FilterDeviceCollection s ! j) [0..<length (FilterDeviceCollection s)])"
    by simp
  then show ?thesis
    by (simp only: visits_def printed_pairs registered_tags_def map_nth)
qed


lemma visits_locked:
  "FilterDeviceCollectionLock s \<Longrightarrow>
   list_all fst (visits s i n) \<and> WaitLockAcquire \<notin> snd ` set (visits s i n)
   \<and> WaitLockRelease \<notin> snd ` set (visits s i n)"
  by (auto simp add: visits_def list_all_iff)

lemma FilterEvtIoDeviceControl_eq:
  assumes "NULL \<notin> set (FilterDeviceCollection s)"
  shows "FilterEvtIoDeviceControl Request s =
     Inr (Request\<lparr> completion := Some (STATUS_SUCCESS, 0) \<rparr>,
          s\<lparr> FilterDeviceCollectionLock := False,
             log := log s @
               (FilterDeviceCollectionLock s, WaitLockAcquire)
               # (True, CollectionGetCount (length (FilterDeviceCollection s)))
               # visits (s\<lparr> FilterDeviceCollectionLock := True \<rparr>) 0
                   (length (FilterDeviceCollection s))
               @ [(True, WaitLockRelease),
                  (False, RequestCompleteWithInformation STATUS_SUCCESS 0)] \<rparr>)"
proof -
  let ?s2 = "snd (WdfCollectionGetCount (WdfWaitLockAcquire s))"
  have s2: "?s2 = s\<lparr> FilterDeviceCollectionLock := True,
                     log := log s @ [(FilterDeviceCollectionLock s, WaitLockAcquire),
                                     (True, CollectionGetCount (length (FilterDeviceCollection s)))] \<rparr>"
    by (simp add: wdf_defs)
  have v: "visits ?s2 0 (length (FilterDeviceCollection s)) =
           visits (s\<lparr> FilterDeviceCollectionLock := True \<rparr>) 0 (length (FilterDeviceCollection s))"
    by (rule visits_same) (simp_all add: s2)
  have "FilterEvtIoDeviceControl_loop 0 (length (FilterDeviceCollection s)) ?s2 =
          Inr (?s2\<lparr> log := log ?s2 @ visits ?s2 0 (length (FilterDeviceCollection s)) \<rparr>)"
    by (rule loop_eq) (simp_all add: s2 assms)
  then show ?thesis
    unfolding v
    by (simp add: FilterEvtIoDeviceControl_def Let_def WdfCollectionGetCount_def
        WdfWaitLockAcquire_def WdfWaitLockRelease_def WdfRequestCompleteWithInformation_def
        emit_def)
qed

lemma printed_append: "printed (a @ b) = printed a @ printed b"
  by (simp add: printed_def)

lemma dispatch_printed_eq:
  assumes "NULL \<notin> set (FilterDeviceCollection s)"
  shows "dispatch_printed r s = Some (registered_tags s)"
proof -
  let ?t = "visits (s\<lparr> FilterDeviceCollectionLock := True \<rparr>) 0 (length (FilterDeviceCollection s))"
  have p: "printed ?t = registered_tags s"
    using printed_visits [of "s\<lparr> FilterDeviceCollectionLock := True \<rparr>"]
    by (simp add: registered_tags_def)
  have "printed ([(FilterDeviceCollectionLock s, WaitLockAcquire),
                  (True, CollectionGetCount (length (FilterDeviceCollection s)))] @ ?t
                 @ [(True, WaitLockRelease),
                    (False, RequestCompleteWithInformation STATUS_SUCCESS 0)]) = registered_tags s"
    unfolding printed_append p by (simp add: printed_def)
  then show ?thesis
    by (simp add: dispatch_printed_def FilterEvtIoDeviceControl_eq [OF assms] logged_since_def)
qed

subsection \<open>Threads\<close>

text \<open>
  The thread model and the callback agree: one thread that runs alone does
  what \<open>FilterEvtDeviceAdd\<close> does, and every step leaves the lock free.
\<close>

lemma add_registered_eq:
  "add_step e (AddRegistered d) s =
     (AddChecked d (length (FilterDeviceCollection s) = 1), snd (FilterCreateControlDevice_check s))"
  by (simp add: add_step_def check_eq)

lemma add_checked_eq:
  "add_step e (AddChecked d b) s =
     (AddReturned (if \<not> NT_SUCCESS (fst (FilterCreateControlDevice_create (control e) d b s))
                   then STATUS_SUCCESS
                   else fst (FilterCreateControlDevice_create (control e) d b s)),
      snd (FilterCreateControlDevice_create (control e) d b s))"
  by (simp add: add_step_def split: prod.splits)

lemma add_returned_eq: "add_step e (AddReturned status) s = (AddReturned status, s)"
  by (simp add: add_step_def)

lemma one_thread:
  "run_schedule [e] [0, 0, 0] ([AddEntry], s) =
     ([AddReturned (fst (FilterEvtDeviceAdd e s))], snd (FilterEvtDeviceAdd e s))"
proof (cases "NT_SUCCESS (DeviceCreate_status e)")
  case True
  then show ?thesis
    by (simp add: thread_step_def FilterEvtDeviceAdd_steps add_entry_eq add_registered_eq
        add_checked_eq FilterCreateControlDevice_eq split: prod.splits)
next
  case False
  then show ?thesis
    by (simp add: thread_step_def FilterEvtDeviceAdd_steps add_entry_eq add_returned_eq)
qed

lemma add_step_releases:
  "\<not> FilterDeviceCollectionLock s \<Longrightarrow> \<not> FilterDeviceCollectionLock (snd (add_step e pc s))"
  by (cases pc)
     (simp_all add: add_entry_eq add_registered_eq add_checked_eq add_returned_eq check_eq
        create_lock)


subsection \<open>Reachable states\<close>

text \<open>
  In every state reached by delivering events from the initial state, the
  handles from \<open>next_handle\<close> on are unused and no item of the collection
  is NULL.
\<close>

lemma create_unused_handles:
  "unused_handles s \<Longrightarrow> unused_handles (snd (FilterCreateControlDevice_create e d b s))"
  by (simp add: create_defs unused_handles_def split: prod.splits)

lemma FilterCreateControlDevice_unused_handles:
  "unused_handles s \<Longrightarrow> unused_handles (snd (FilterCreateControlDevice e d s))"
proof -
  assume "unused_handles s"
  then have "unused_handles (snd (FilterCreateControlDevice_check s))"
    by (simp add: check_eq unused_handles_def)
  then show ?thesis
    by (simp add: FilterCreateControlDevice_eq create_unused_handles)
qed

lemma deliver_unused_handles: "unused_handles s \<Longrightarrow> unused_handles (deliver ev s)"
proof (cases ev)
  case (InstanceAppears e)
  assume u: "unused_handles s"
  show ?thesis
  proof (cases "NT_SUCCESS (DeviceCreate_status e)")
    case True
    have "unused_handles (snd (add_step e AddEntry s))"
      using u True by (simp add: add_entry_eq unused_handles_def)
    then show ?thesis
      using True InstanceAppears
      by (simp add: deliver_def FilterEvtDeviceAdd_created FilterCreateControlDevice_unused_handles)
  next
    case False
    then show ?thesis
      using u InstanceAppears
      by (simp add: deliver_def FilterEvtDeviceAdd_refused unused_handles_def)
  qed
next
  case (InstanceDisappears d)
  assume "unused_handles s"
  then show ?thesis
    using InstanceDisappears by (simp add: deliver_def cleanup_eq unused_handles_def)
qed

lemma run_unused_handles: "unused_handles s \<Longrightarrow> unused_handles (run evs s)"
  by (induction evs arbitrary: s) (simp_all add: deliver_unused_handles)

lemma reachable_unused_handles: "unused_handles (run evs initial_state)"
  by (rule run_unused_handles) (simp add: unused_handles_def initial_state_def)

lemma deliver_no_NULL:
  "NULL \<notin> set (FilterDeviceCollection s) \<Longrightarrow> NULL \<notin> set (FilterDeviceCollection (deliver ev s))"
  by (cases ev)
     (auto simp add: deliver_def FilterEvtDeviceAdd_collection cleanup_eq dest: notin_set_remove1)

lemma run_no_NULL:
  "NULL \<notin> set (FilterDeviceCollection s) \<Longrightarrow> NULL \<notin> set (FilterDeviceCollection (run evs s))"
  by (induction evs arbitrary: s) (simp_all add: deliver_no_NULL)

lemma reachable_no_NULL: "NULL \<notin> set (FilterDeviceCollection (run evs initial_state))"
  by (rule run_no_NULL) (simp add: initial_state_def)

subsection \<open>The example states\<close>

lemma not_NT_SUCCESS_UNSUCCESSFUL: "\<not> NT_SUCCESS STATUS_UNSUCCESSFUL"
  by (simp add: NT_SUCCESS_def STATUS_UNSUCCESSFUL_def)

lemma not_NT_SUCCESS_COLLISION: "\<not> NT_SUCCESS STATUS_OBJECT_NAME_COLLISION"
  by (simp add: NT_SUCCESS_def STATUS_OBJECT_NAME_COLLISION_def)

lemmas host_defs = appears_def obliging_def appears_no_channel_def appears_unregistered_def
  name_taken_def second_unregistered_def not_NT_SUCCESS_UNSUCCESSFUL not_NT_SUCCESS_COLLISION
  appears_unidentified_def alias_taken_def creates_def flawless_def NT_SUCCESS_STATUS_SUCCESS
  not_NT_SUCCESS_INSUFFICIENT

lemmas effect = deliver_def FilterEvtDeviceAdd_collection FilterEvtDeviceAdd_ControlDevice
  FilterEvtDeviceAdd_filter_devices FilterEvtDeviceAdd_extension FilterEvtDeviceAdd_status cleanup_eq

lemma next_handle_add:
  "next_handle (snd (FilterEvtDeviceAdd e s)) =
     (if NT_SUCCESS (DeviceCreate_status e)
      then (if length (FilterDeviceCollection (snd (FilterEvtDeviceAdd e s))) = 1
            then (if InitAllocate_ok (control e)
                  then (if NT_SUCCESS (AssignName_status (control e)) \<and>
                           NT_SUCCESS (ControlCreate_status (control e))
                        then Suc (Suc (Suc (next_handle s))) else Suc (Suc (next_handle s)))
                  else Suc (next_handle s))
            else Suc (next_handle s))
      else next_handle s)"
  by (cases "NT_SUCCESS (DeviceCreate_status e)")
     (simp_all add: FilterEvtDeviceAdd_created FilterEvtDeviceAdd_refused
        FilterCreateControlDevice_eq check_eq add_entry_eq create_defs split: prod.splits)


lemma FilterEvtDeviceAdd_lock:
  "FilterDeviceCollectionLock (snd (FilterEvtDeviceAdd e s)) =
     (if NT_SUCCESS (DeviceCreate_status e) then False else FilterDeviceCollectionLock s)"
  by (cases "NT_SUCCESS (DeviceCreate_status e)")
     (simp_all add: FilterEvtDeviceAdd_created FilterEvtDeviceAdd_refused
        FilterCreateControlDevice_eq create_lock check_eq)

lemma first_registered_eq:
  "first_registered =
     initial_state
       \<lparr> FilterDeviceCollection := [Handle 0], next_handle := 1, filter_devices := [Handle 0],
         extension := (extension initial_state)(Handle 0 := \<lparr> SerialNo = 10 \<rparr>),
         log := [(False, FdoInitQueryProperty STATUS_SUCCESS), (False, FdoInitSetFilter),
                 (False, DeviceCreate STATUS_SUCCESS), (False, WaitLockAcquire),
                 (True, CollectionAdd (Handle 0) STATUS_SUCCESS), (True, WaitLockRelease)] \<rparr>"
  by (simp add: first_registered_def add_entry_eq appears_def NT_SUCCESS_STATUS_SUCCESS
      initial_state_def)

lemma one_instance_fields:
  "FilterDeviceCollection one_instance = [Handle 0]"
  "ControlDevice one_instance = Handle 2"
  "\<not> FilterDeviceCollectionLock one_instance"
  "next_handle one_instance = 3"
  "extension one_instance (Handle 0) = \<lparr> SerialNo = 10 \<rparr>"
  by (simp_all add: one_instance_def effect FilterEvtDeviceAdd_lock next_handle_add host_defs
      initial_state_def)

lemma two_instances_fields:
  "FilterDeviceCollection two_instances = [Handle 0, Handle 3]"
  "ControlDevice two_instances = Handle 2"
  "extension two_instances (Handle 0) = \<lparr> SerialNo = 10 \<rparr>"
  "extension two_instances (Handle 3) = \<lparr> SerialNo = 20 \<rparr>"
  by (simp_all add: two_instances_def effect FilterEvtDeviceAdd_lock next_handle_add host_defs
      initial_state_def)


section \<open>The claims\<close>

subsection \<open>C1\<close>

text \<open>
  C1, as amended. The claim says that in every reachable state the control
  device exists if and only if the collection is not empty. The code
  guarantees one direction in every state reached by delivering appear and
  disappear events one after the other: a control device exists only while
  the collection is not empty. The other direction holds as long as no
  insertion into the collection and no step of the creation protocol has
  failed.
\<close>

theorem channel_only_with_instances:
  "(ControlDevice (run evs initial_state) \<noteq> NULL
      \<longrightarrow> FilterDeviceCollection (run evs initial_state) \<noteq> [])
   \<and> (list_all flawless evs \<longrightarrow>
        (ControlDevice (run evs initial_state) \<noteq> NULL
           \<longleftrightarrow> FilterDeviceCollection (run evs initial_state) \<noteq> []))"
proof -
  have "channel_has_instance initial_state"
    by (simp add: channel_has_instance_def initial_state_def)
  then have one: "channel_has_instance (run evs initial_state)"
    by (rule run_channel_has_instance)
  have "channel_tracks_registry initial_state"
    by (simp add: channel_tracks_registry_def initial_state_def)
  then have two: "list_all flawless evs \<Longrightarrow> channel_tracks_registry (run evs initial_state)"
    by (rule run_channel_tracks_registry)
  show ?thesis
    using one two by (simp add: channel_has_instance_def channel_tracks_registry_def)
qed

text \<open>
  Two instances appear and the first one disappears: the events are flawless,
  one instance is left, and the control device is still there.
\<close>

theorem channel_only_with_instances_witness:
  "list_all flawless
     [InstanceAppears (appears 10), InstanceAppears (appears 20), InstanceDisappears (Handle 0)]
   \<and> FilterDeviceCollection
        (run [InstanceAppears (appears 10), InstanceAppears (appears 20),
              InstanceDisappears (Handle 0)] initial_state) = [Handle 3]
   \<and> ControlDevice
        (run [InstanceAppears (appears 10), InstanceAppears (appears 20),
              InstanceDisappears (Handle 0)] initial_state) \<noteq> NULL"
proof -
  have f: "list_all flawless
     [InstanceAppears (appears 10), InstanceAppears (appears 20), InstanceDisappears (Handle 0)]"
    by (simp add: host_defs)
  have c: "FilterDeviceCollection
        (run [InstanceAppears (appears 10), InstanceAppears (appears 20),
              InstanceDisappears (Handle 0)] initial_state) = [Handle 3]"
    by (simp add: effect next_handle_add host_defs initial_state_def)
  show ?thesis
    using f c channel_only_with_instances
      [of "[InstanceAppears (appears 10), InstanceAppears (appears 20),
            InstanceDisappears (Handle 0)]"]
    by simp
qed

text \<open>
  The claim as stated fails: when the first instance appears and the
  framework cannot allocate the initialisation structure, the instance is in
  the collection and there is no control device.
\<close>

theorem instance_without_channel:
  "FilterDeviceCollection (run [InstanceAppears (appears_no_channel 10)] initial_state) = [Handle 0]
   \<and> ControlDevice (run [InstanceAppears (appears_no_channel 10)] initial_state) = NULL"
  by (simp add: effect host_defs initial_state_def)

subsection \<open>C2\<close>

text \<open>
  C2. The claim says that when two instances appear concurrently from a count
  of zero, exactly one creation protocol executes. In the code the insertion
  into the collection and the test of the count are two separate locked
  regions. When both threads insert before either tests the count, both read
  a count of two, neither runs the creation protocol, both calls return
  success, and there is no control device.
\<close>

theorem concurrent_appearances_create_no_channel:
  "fst (run_schedule [appears 10, appears 20] [0, 1, 0, 1, 0, 1]
          ([AddEntry, AddEntry], initial_state))
     = [AddReturned STATUS_SUCCESS, AddReturned STATUS_SUCCESS]
   \<and> FilterDeviceCollection
       (snd (run_schedule [appears 10, appears 20] [0, 1, 0, 1, 0, 1]
               ([AddEntry, AddEntry], initial_state)))
     = [Handle 0, Handle 1]
   \<and> ControlDevice
       (snd (run_schedule [appears 10, appears 20] [0, 1, 0, 1, 0, 1]
               ([AddEntry, AddEntry], initial_state)))
     = NULL
   \<and> creation_protocols
       (log (snd (run_schedule [appears 10, appears 20] [0, 1, 0, 1, 0, 1]
                    ([AddEntry, AddEntry], initial_state))))
     = 0"
  by (simp add: thread_step_def add_entry_eq add_registered_eq add_checked_eq check_eq
      create_skip appears_def initial_state_def NT_SUCCESS_STATUS_SUCCESS
      creation_protocols_def)

text \<open>
  When the first thread returns before the second one starts, one creation
  protocol runs and the control device exists.
\<close>

lemma serial_appearances_create_one_channel:
  "fst (run_schedule [appears 10, appears 20] [0, 0, 0, 1, 1, 1]
          ([AddEntry, AddEntry], initial_state))
     = [AddReturned STATUS_SUCCESS, AddReturned STATUS_SUCCESS]
   \<and> snd (run_schedule [appears 10, appears 20] [0, 0, 0, 1, 1, 1]
            ([AddEntry, AddEntry], initial_state))
     = run [InstanceAppears (appears 10), InstanceAppears (appears 20)] initial_state
   \<and> ControlDevice
       (snd (run_schedule [appears 10, appears 20] [0, 0, 0, 1, 1, 1]
               ([AddEntry, AddEntry], initial_state)))
     = Handle 2
   \<and> creation_protocols
       (log (snd (run_schedule [appears 10, appears 20] [0, 0, 0, 1, 1, 1]
                    ([AddEntry, AddEntry], initial_state))))
     = 1"
proof -
  have first: "run_schedule [appears 10, appears 20] [0, 0, 0] ([AddEntry, AddEntry], initial_state)
      = ([AddReturned (fst (FilterEvtDeviceAdd (appears 10) initial_state)), AddEntry],
         snd (FilterEvtDeviceAdd (appears 10) initial_state))"
    by (simp add: thread_step_def FilterEvtDeviceAdd_steps add_entry_eq add_registered_eq
        add_checked_eq FilterCreateControlDevice_eq appears_def NT_SUCCESS_STATUS_SUCCESS
        split: prod.splits)
  have second: "run_schedule [appears 10, appears 20] [1, 1, 1]
        ([AddReturned st, AddEntry], s)
      = ([AddReturned st, AddReturned (fst (FilterEvtDeviceAdd (appears 20) s))],
         snd (FilterEvtDeviceAdd (appears 20) s))" for st s
    by (simp add: thread_step_def FilterEvtDeviceAdd_steps add_entry_eq add_registered_eq
        add_checked_eq FilterCreateControlDevice_eq appears_def NT_SUCCESS_STATUS_SUCCESS
        split: prod.splits)
  have split: "run_schedule envs [0, 0, 0, 1, 1, 1] cfg =
                 run_schedule envs [1, 1, 1] (run_schedule envs [0, 0, 0] cfg)" for envs cfg
    by simp
  have whole: "run_schedule [appears 10, appears 20] [0, 0, 0, 1, 1, 1]
          ([AddEntry, AddEntry], initial_state)
      = ([AddReturned (fst (FilterEvtDeviceAdd (appears 10) initial_state)),
          AddReturned (fst (FilterEvtDeviceAdd (appears 20)
                              (snd (FilterEvtDeviceAdd (appears 10) initial_state))))],
         snd (FilterEvtDeviceAdd (appears 20)
                (snd (FilterEvtDeviceAdd (appears 10) initial_state))))"
    unfolding split first second ..
  have cp: "creation_protocols (log two_instances) = 1"
    by (simp add: two_instances_def deliver_def FilterEvtDeviceAdd_created
        FilterCreateControlDevice_eq check_eq add_entry_eq create_defs creation_protocols_def
        host_defs initial_state_def split: prod.splits)
  show ?thesis
    unfolding whole using cp two_instances_fields(2)
    by (simp add: two_instances_def deliver_def FilterEvtDeviceAdd_status host_defs)
qed

text \<open>
  The creation protocol itself runs after the lock has been released: every
  call \<open>FilterCreateControlDevice\<close> makes after its locked count check,
  the assignment of \<open>ControlDevice\<close> included, is made with the lock free.
\<close>

lemma creation_protocol_runs_unlocked:
  "\<exists>t. logged_since s (snd (FilterCreateControlDevice e Device s)) =
         [(FilterDeviceCollectionLock s, WaitLockAcquire),
          (True, CollectionGetCount (length (FilterDeviceCollection s))),
          (True, WaitLockRelease)] @ t
       \<and> list_all (\<lambda>x. \<not> fst x) t
       \<and> creation_protocols t = (if length (FilterDeviceCollection s) = 1 then 1 else 0)"
  using FilterCreateControlDevice_log [of s e Device] by blast

subsection \<open>C3\<close>

text \<open>
  C3. When an instance disappears, the callback acquires the lock once, reads
  the count, deletes the control device when the count is one, removes the
  instance from the collection, and releases the lock: every call between the
  acquisition and the release is made with the lock held, in this order. The
  control device is gone exactly when the count read before the removal was
  one.
\<close>

theorem cleanup_destroys_before_removal_under_one_lock:
  "logged_since s (FilterEvtDeviceContextCleanup Device s) =
     (FilterDeviceCollectionLock s, WaitLockAcquire)
     # (True, CollectionGetCount (length (FilterDeviceCollection s)))
     # (if length (FilterDeviceCollection s) = 1 \<and> ControlDevice s \<noteq> NULL
        then [(True, ObjectDelete (ControlDevice s)), (True, AssignControlDevice NULL)]
        else [])
     @ [(True, CollectionRemove Device), (True, WaitLockRelease)]
   \<and> ControlDevice (FilterEvtDeviceContextCleanup Device s) =
       (if length (FilterDeviceCollection s) = 1 then NULL else ControlDevice s)
   \<and> FilterDeviceCollection (FilterEvtDeviceContextCleanup Device s) =
       remove1 Device (FilterDeviceCollection s)
   \<and> \<not> FilterDeviceCollectionLock (FilterEvtDeviceContextCleanup Device s)"
  by (simp add: cleanup_eq logged_since_def)

text \<open>The last instance disappears.\<close>

theorem cleanup_of_last_instance_witness:
  "logged_since one_instance (FilterEvtDeviceContextCleanup (Handle 0) one_instance) =
     [(False, WaitLockAcquire), (True, CollectionGetCount 1), (True, ObjectDelete (Handle 2)),
      (True, AssignControlDevice NULL), (True, CollectionRemove (Handle 0)),
      (True, WaitLockRelease)]
   \<and> ControlDevice (FilterEvtDeviceContextCleanup (Handle 0) one_instance) = NULL
   \<and> FilterDeviceCollection (FilterEvtDeviceContextCleanup (Handle 0) one_instance) = []"
  using cleanup_destroys_before_removal_under_one_lock [of one_instance "Handle 0"]
  by (simp add: one_instance_fields)

subsection \<open>C4\<close>

text \<open>
  C4. Once the filter device object exists, \<open>FilterEvtDeviceAdd\<close> returns
  \<open>STATUS_SUCCESS\<close> whatever the host answers afterwards; in particular
  when a step of the creation of the control device fails. (The control
  device is not attempted when the filter device object cannot be created.)
\<close>

theorem channel_failure_does_not_fail_attachment:
  "NT_SUCCESS (DeviceCreate_status e) \<Longrightarrow>
   fst (FilterEvtDeviceAdd e s) = STATUS_SUCCESS \<and> NT_SUCCESS (fst (FilterEvtDeviceAdd e s))"
  by (simp add: FilterEvtDeviceAdd_status NT_SUCCESS_STATUS_SUCCESS)

text \<open>The allocation of the initialisation structure fails for the first instance.\<close>

theorem channel_failure_does_not_fail_attachment_witness:
  "NT_SUCCESS (DeviceCreate_status (appears_no_channel 10))
   \<and> \<not> creates (control (appears_no_channel 10))
   \<and> ControlDevice (snd (FilterEvtDeviceAdd (appears_no_channel 10) initial_state)) = NULL
   \<and> fst (FilterEvtDeviceAdd (appears_no_channel 10) initial_state) = STATUS_SUCCESS"
  using channel_failure_does_not_fail_attachment [of "appears_no_channel 10" initial_state]
  by (simp add: FilterEvtDeviceAdd_ControlDevice host_defs initial_state_def)

subsection \<open>C5\<close>

text \<open>
  C5. The claim says that the attachment reports failure when the insertion
  into the collection fails. The code prints the status of
  \<open>WdfCollectionAdd\<close> and overwrites it: the call returns
  \<open>STATUS_SUCCESS\<close>, and the new filter device is alive and not in the
  collection.
\<close>

theorem registry_failure_reported_as_success:
  "\<not> NT_SUCCESS (CollectionAdd_status (appears_unregistered 10))
   \<and> fst (FilterEvtDeviceAdd (appears_unregistered 10) initial_state) = STATUS_SUCCESS
   \<and> FilterDeviceCollection (snd (FilterEvtDeviceAdd (appears_unregistered 10) initial_state)) = []
   \<and> filter_devices (snd (FilterEvtDeviceAdd (appears_unregistered 10) initial_state)) = [Handle 0]"
  by (simp add: effect host_defs initial_state_def)

text \<open>
  What follows from it: a second instance that is not registered makes
  \<open>FilterCreateControlDevice\<close> run the creation protocol a second time, and
  when it disappears it takes the control device away from the instance that
  is still registered.
\<close>

lemma unregistered_instance_breaks_lifecycle:
  "creation_protocols
     (log (run [InstanceAppears (appears 10), InstanceAppears second_unregistered] initial_state))
     = 2
   \<and> FilterDeviceCollection
       (run [InstanceAppears (appears 10), InstanceAppears second_unregistered,
             InstanceDisappears (Handle 3)] initial_state) = [Handle 0]
   \<and> ControlDevice
       (run [InstanceAppears (appears 10), InstanceAppears second_unregistered,
             InstanceDisappears (Handle 3)] initial_state) = NULL"
proof -
  have "creation_protocols
     (log (run [InstanceAppears (appears 10), InstanceAppears second_unregistered] initial_state))
     = 2"
    by (simp add: deliver_def FilterEvtDeviceAdd_created FilterCreateControlDevice_eq check_eq
        add_entry_eq create_defs creation_protocols_def host_defs initial_state_def
        split: prod.splits)
  moreover have "FilterDeviceCollection
       (run [InstanceAppears (appears 10), InstanceAppears second_unregistered,
             InstanceDisappears (Handle 3)] initial_state) = [Handle 0]
   \<and> ControlDevice
       (run [InstanceAppears (appears 10), InstanceAppears second_unregistered,
             InstanceDisappears (Handle 3)] initial_state) = NULL"
    by (simp add: effect next_handle_add host_defs initial_state_def)
  ultimately show ?thesis
    by simp
qed

subsection \<open>C6\<close>

text \<open>
  C6, as amended. The claim says that the response payload holds the tags of
  the registered instances. The handler acquires the lock, reads the count,
  visits every item of the collection in order and prints its tag with
  \<open>KdPrint\<close>, releases the lock, and completes the request with
  \<open>STATUS_SUCCESS\<close> and zero bytes: the tags go to the debug output in
  registration order, and the response payload is empty. The handler writes
  none of the driver's globals.
\<close>

theorem dispatch_prints_tags_and_returns_no_payload:
  assumes "NULL \<notin> set (FilterDeviceCollection s)"
  shows "\<exists>t. FilterEvtIoDeviceControl Request s =
           Inr (Request\<lparr> completion := Some (STATUS_SUCCESS, 0) \<rparr>,
                s\<lparr> FilterDeviceCollectionLock := False,
                   log := log s @
                     (FilterDeviceCollectionLock s, WaitLockAcquire)
                     # (True, CollectionGetCount (length (FilterDeviceCollection s)))
                     # t
                     @ [(True, WaitLockRelease),
                        (False, RequestCompleteWithInformation STATUS_SUCCESS 0)] \<rparr>)
         \<and> list_all fst t
         \<and> WaitLockAcquire \<notin> snd ` set t \<and> WaitLockRelease \<notin> snd ` set t
         \<and> printed t = registered_tags s
         \<and> dispatch_response Request s = Some []"
proof -
  let ?t = "visits (s\<lparr> FilterDeviceCollectionLock := True \<rparr>) 0 (length (FilterDeviceCollection s))"
  have p: "printed ?t = registered_tags s"
    using printed_visits [of "s\<lparr> FilterDeviceCollectionLock := True \<rparr>"]
    by (simp add: registered_tags_def)
  have l: "list_all fst ?t \<and> WaitLockAcquire \<notin> snd ` set ?t \<and> WaitLockRelease \<notin> snd ` set ?t"
    by (rule visits_locked) simp
  have d: "dispatch_response Request s = Some []"
    by (simp add: dispatch_response_def FilterEvtIoDeviceControl_eq [OF assms]
        response_payload_def)
  show ?thesis
    using FilterEvtIoDeviceControl_eq [OF assms, of Request] p l d by blast
qed

text \<open>Two instances are registered.\<close>

theorem dispatch_prints_tags_and_returns_no_payload_witness:
  "NULL \<notin> set (FilterDeviceCollection two_instances)
   \<and> registered_tags two_instances = [10, 20]
   \<and> dispatch_response query two_instances = Some []"
proof -
  have n: "NULL \<notin> set (FilterDeviceCollection two_instances)"
    by (simp add: two_instances_fields)
  have r: "registered_tags two_instances = [10, 20]"
    by (simp add: two_instances_fields registered_tags_def)
  from dispatch_prints_tags_and_returns_no_payload [OF n, of query]
  have "dispatch_response query two_instances = Some []"
    by blast
  with n r show ?thesis
    by simp
qed

text \<open>
  The claim as stated fails: with one instance of tag 10 registered, the
  response to a query with a four-byte buffer has no bytes.
\<close>

theorem dispatch_payload_is_empty:
  "registered_tags one_instance = [10] \<and> dispatch_response query one_instance = Some []"
  by (simp add: registered_tags_def one_instance_fields dispatch_response_def
      FilterEvtIoDeviceControl_eq response_payload_def)

subsection \<open>C7\<close>

text \<open>
  C7. The claim says that \<open>FilterCreateControlDevice\<close> does nothing and
  returns success when the control device exists. The code tests the count
  of the collection, not the handle. The first instance is registered and its
  control device is alive; a second instance appears and cannot be inserted
  into the collection, so that the count is still one when
  \<open>FilterEvtDeviceAdd\<close> calls \<open>FilterCreateControlDevice\<close> for it. The call
  runs the creation protocol again: it allocates an initialisation structure,
  is refused the device name, frees the structure, and returns the failure.
\<close>

theorem creation_repeated_while_channel_exists:
  "FilterDeviceCollection second_call_state = [Handle 0]
   \<and> ControlDevice second_call_state = Handle 2
   \<and> snd (FilterEvtDeviceAdd second_unregistered one_instance)
       = snd (FilterCreateControlDevice name_taken (Handle 3) second_call_state)
   \<and> fst (FilterCreateControlDevice name_taken (Handle 3) second_call_state)
       = STATUS_OBJECT_NAME_COLLISION
   \<and> creation_protocols
       (logged_since second_call_state
          (snd (FilterCreateControlDevice name_taken (Handle 3) second_call_state))) = 1
   \<and> releases
       (logged_since second_call_state
          (snd (FilterCreateControlDevice name_taken (Handle 3) second_call_state)))
       = [DeviceInitFree (Handle 4)]"
proof -
  have s: "FilterDeviceCollection second_call_state = [Handle 0]"
    "ControlDevice second_call_state = Handle 2"
    "next_handle second_call_state = 4"
    by (simp_all add: second_call_state_def add_entry_eq one_instance_fields host_defs)
  have call: "snd (FilterEvtDeviceAdd second_unregistered one_instance)
       = snd (FilterCreateControlDevice name_taken (Handle 3) second_call_state)"
    by (simp add: FilterEvtDeviceAdd_created second_call_state_def one_instance_fields host_defs)
  have st: "fst (FilterCreateControlDevice name_taken (Handle 3) second_call_state)
       = STATUS_OBJECT_NAME_COLLISION"
    by (simp add: FilterCreateControlDevice_eq s check_eq create_defs host_defs)
  obtain t where t: "logged_since second_call_state
          (snd (FilterCreateControlDevice name_taken (Handle 3) second_call_state)) =
         [(FilterDeviceCollectionLock second_call_state, WaitLockAcquire),
          (True, CollectionGetCount (length (FilterDeviceCollection second_call_state))),
          (True, WaitLockRelease)] @ t"
    and c: "creation_protocols t =
          (if length (FilterDeviceCollection second_call_state) = 1 then 1 else 0)"
    using FilterCreateControlDevice_log [of second_call_state name_taken "Handle 3"] by blast
  have cp: "creation_protocols
       (logged_since second_call_state
          (snd (FilterCreateControlDevice name_taken (Handle 3) second_call_state))) = 1"
    using c by (simp add: t s creation_protocols_def)
  have rl: "releases
       (logged_since second_call_state
          (snd (FilterCreateControlDevice name_taken (Handle 3) second_call_state)))
       = [DeviceInitFree (Handle 4)]"
    using FilterCreateControlDevice_releases [of second_call_state name_taken "Handle 3"]
    by (simp add: s host_defs)
  show ?thesis
    using s call st cp rl by simp
qed

text \<open>
  What the code does as the claim says: the call does nothing (it takes and
  releases the lock, and returns \<open>STATUS_SUCCESS\<close>) when the count is not
  one, and \<open>FilterDeleteControlDevice\<close> does nothing when the handle is NULL.
\<close>

lemma no_op_when_count_is_not_one:
  "(length (FilterDeviceCollection s) \<noteq> 1 \<longrightarrow>
      FilterCreateControlDevice e Device s =
        (STATUS_SUCCESS,
         s\<lparr> FilterDeviceCollectionLock := False,
            log := log s @ [(FilterDeviceCollectionLock s, WaitLockAcquire),
                            (True, CollectionGetCount (length (FilterDeviceCollection s))),
                            (True, WaitLockRelease)] \<rparr>))
   \<and> (ControlDevice s = NULL \<longrightarrow> FilterDeleteControlDevice Device s = s)"
  by (simp add: FilterCreateControlDevice_eq create_skip check_eq FilterDeleteControlDevice_def)

subsection \<open>C8\<close>

text \<open>
  C8. When \<open>FilterCreateControlDevice\<close> fails, the initialisation structures
  and the control device objects of the framework are those that existed
  before the call, and \<open>ControlDevice\<close> is what it was (NULL when it was
  NULL). When the initialisation structure had been allocated, the last call
  before returning frees it, or deletes the device object that was made from
  it. The handles the framework hands out are new.
\<close>

theorem creation_failure_rolls_back:
  assumes "unused_handles s"
    and "\<not> NT_SUCCESS (fst (FilterCreateControlDevice e Device s))"
  shows "device_inits (snd (FilterCreateControlDevice e Device s)) = device_inits s
       \<and> control_objects (snd (FilterCreateControlDevice e Device s)) = control_objects s
       \<and> ControlDevice (snd (FilterCreateControlDevice e Device s)) = ControlDevice s
       \<and> releases (logged_since s (snd (FilterCreateControlDevice e Device s))) =
           (if \<not> InitAllocate_ok e then []
            else if NT_SUCCESS (AssignName_status e) \<and> NT_SUCCESS (ControlCreate_status e)
                 then [ObjectDelete (Handle (Suc (next_handle s)))]
                 else [DeviceInitFree (Handle (next_handle s))])
       \<and> (InitAllocate_ok e \<longrightarrow>
            last (log (snd (FilterCreateControlDevice e Device s))) =
              (False,
               if NT_SUCCESS (AssignName_status e) \<and> NT_SUCCESS (ControlCreate_status e)
               then ObjectDelete (Handle (Suc (next_handle s)))
               else DeviceInitFree (Handle (next_handle s))))"
proof -
  from assms(2) have one: "length (FilterDeviceCollection s) = 1" and no: "\<not> creates e"
    by (simp_all add: FilterCreateControlDevice_fails_iff)
  have u: "unused_handles (snd (FilterCreateControlDevice_check s))"
    using assms(1) by (simp add: check_eq unused_handles_def)
  have r: "releases (logged_since s (snd (FilterCreateControlDevice e Device s))) =
           (if \<not> InitAllocate_ok e then []
            else if NT_SUCCESS (AssignName_status e) \<and> NT_SUCCESS (ControlCreate_status e)
                 then [ObjectDelete (Handle (Suc (next_handle s)))]
                 else [DeviceInitFree (Handle (next_handle s))])"
    using FilterCreateControlDevice_releases [OF one, of e Device] no by simp
  have rest: "device_inits (snd (FilterCreateControlDevice e Device s)) = device_inits s
       \<and> control_objects (snd (FilterCreateControlDevice e Device s)) = control_objects s
       \<and> ControlDevice (snd (FilterCreateControlDevice e Device s)) = ControlDevice s
       \<and> (InitAllocate_ok e \<longrightarrow>
            last (log (snd (FilterCreateControlDevice e Device s))) =
              (False,
               if NT_SUCCESS (AssignName_status e) \<and> NT_SUCCESS (ControlCreate_status e)
               then ObjectDelete (Handle (Suc (next_handle s)))
               else DeviceInitFree (Handle (next_handle s))))"
    using one no create_rollback [OF u no, of Device] create_rollback_last [OF no, of Device]
    by (simp add: FilterCreateControlDevice_eq create_ControlDevice) (simp add: check_eq)
  show ?thesis
    using r rest by blast
qed

text \<open>The symbolic link cannot be created for the first instance.\<close>

theorem creation_failure_rolls_back_witness:
  "unused_handles first_registered
   \<and> fst (FilterCreateControlDevice alias_taken (Handle 0) first_registered)
       = STATUS_OBJECT_NAME_COLLISION
   \<and> device_inits (snd (FilterCreateControlDevice alias_taken (Handle 0) first_registered))
       = Map.empty
   \<and> control_objects (snd (FilterCreateControlDevice alias_taken (Handle 0) first_registered))
       = Map.empty
   \<and> ControlDevice (snd (FilterCreateControlDevice alias_taken (Handle 0) first_registered)) = NULL
   \<and> releases (logged_since first_registered
         (snd (FilterCreateControlDevice alias_taken (Handle 0) first_registered)))
       = [ObjectDelete (Handle 2)]
   \<and> last (log (snd (FilterCreateControlDevice alias_taken (Handle 0) first_registered)))
       = (False, ObjectDelete (Handle 2))"
proof -
  have u: "unused_handles first_registered"
    by (simp add: first_registered_eq unused_handles_def initial_state_def)
  have st: "fst (FilterCreateControlDevice alias_taken (Handle 0) first_registered)
              = STATUS_OBJECT_NAME_COLLISION"
    by (simp add: FilterCreateControlDevice_eq first_registered_eq check_eq create_defs
        alias_taken_def obliging_def NT_SUCCESS_STATUS_SUCCESS not_NT_SUCCESS_COLLISION
        initial_state_def)
  then have f: "\<not> NT_SUCCESS (fst (FilterCreateControlDevice alias_taken (Handle 0) first_registered))"
    by (simp add: not_NT_SUCCESS_COLLISION)
  show ?thesis
    using u st creation_failure_rolls_back [OF u f]
    by (simp add: alias_taken_def obliging_def NT_SUCCESS_STATUS_SUCCESS)
       (simp add: first_registered_eq initial_state_def)
qed

subsection \<open>C9\<close>

text \<open>
  C9. The claim says that an instance that cannot be identified is registered
  with an unset tag. The code goes on, registers the instance and returns
  success, but the tag it stores is the local \<open>serialNo\<close>, which nothing has
  written: whatever 32-bit value the stack held becomes the tag of the
  instance, the same record a successful query of that value leaves, and the
  request handler prints it as a serial number.
\<close>

theorem unidentified_instance_carries_stack_value:
  "\<not> NT_SUCCESS (QueryProperty_status (appears_unidentified 0xAAAAAAAA))
   \<and> fst (FilterEvtDeviceAdd (appears_unidentified 0xAAAAAAAA) initial_state) = STATUS_SUCCESS
   \<and> FilterDeviceCollection (snd (FilterEvtDeviceAdd (appears_unidentified 0xAAAAAAAA) initial_state))
       = [Handle 0]
   \<and> registered_tags (snd (FilterEvtDeviceAdd (appears_unidentified 0xAAAAAAAA) initial_state))
       = [0xAAAAAAAA]
   \<and> registered_tags (snd (FilterEvtDeviceAdd (appears 0xAAAAAAAA) initial_state))
       = [0xAAAAAAAA]
   \<and> dispatch_printed query
       (snd (FilterEvtDeviceAdd (appears_unidentified 0xAAAAAAAA) initial_state))
       = Some [0xAAAAAAAA]"
proof -
  have c: "FilterDeviceCollection
             (snd (FilterEvtDeviceAdd (appears_unidentified 0xAAAAAAAA) initial_state)) = [Handle 0]"
    by (simp add: FilterEvtDeviceAdd_collection appears_unidentified_def host_defs
        initial_state_def)
  have r: "registered_tags (snd (FilterEvtDeviceAdd (appears_unidentified 0xAAAAAAAA) initial_state))
             = [0xAAAAAAAA]"
    by (simp add: registered_tags_def c)
       (simp add: FilterEvtDeviceAdd_extension appears_unidentified_def host_defs
          initial_state_def)
  have n: "NULL \<notin> set (FilterDeviceCollection
             (snd (FilterEvtDeviceAdd (appears_unidentified 0xAAAAAAAA) initial_state)))"
    by (simp add: c)
  have "registered_tags (snd (FilterEvtDeviceAdd (appears 0xAAAAAAAA) initial_state))
          = [0xAAAAAAAA]"
    by (simp add: registered_tags_def FilterEvtDeviceAdd_collection FilterEvtDeviceAdd_extension
        host_defs initial_state_def)
  moreover have "\<not> NT_SUCCESS (QueryProperty_status (appears_unidentified 0xAAAAAAAA))"
    by (simp add: appears_unidentified_def host_defs)
  moreover have "fst (FilterEvtDeviceAdd (appears_unidentified 0xAAAAAAAA) initial_state)
                   = STATUS_SUCCESS"
    by (simp add: FilterEvtDeviceAdd_status appears_unidentified_def host_defs)
  ultimately show ?thesis
    using c r dispatch_printed_eq [OF n, of query] by simp
qed

text \<open>
  In general: when the property query fails, \<open>FilterEvtDeviceAdd\<close> returns the
  same status and leaves the same collection as when the query succeeds. When
  the filter device object is created the call returns \<open>STATUS_SUCCESS\<close>,
  the tag of the new instance is what the local held on entry, and when the
  insertion succeeds the new instance is the last item of the collection.
\<close>

lemma identification_failure_keeps_status_and_registry:
  assumes "\<not> NT_SUCCESS (QueryProperty_status e)"
  shows "fst (FilterEvtDeviceAdd e s)
           = fst (FilterEvtDeviceAdd (e\<lparr> QueryProperty_status := STATUS_SUCCESS \<rparr>) s)
       \<and> FilterDeviceCollection (snd (FilterEvtDeviceAdd e s))
           = FilterDeviceCollection
               (snd (FilterEvtDeviceAdd (e\<lparr> QueryProperty_status := STATUS_SUCCESS \<rparr>) s))
       \<and> (NT_SUCCESS (DeviceCreate_status e) \<longrightarrow>
            fst (FilterEvtDeviceAdd e s) = STATUS_SUCCESS
            \<and> SerialNo (extension (snd (FilterEvtDeviceAdd e s)) (Handle (next_handle s)))
                = serialNo_on_entry e
            \<and> (NT_SUCCESS (CollectionAdd_status e) \<longrightarrow>
                 FilterDeviceCollection (snd (FilterEvtDeviceAdd e s))
                   = FilterDeviceCollection s @ [Handle (next_handle s)]))"
  using assms
  by (simp add: FilterEvtDeviceAdd_status FilterEvtDeviceAdd_collection
      FilterEvtDeviceAdd_extension)

subsection \<open>C10\<close>

text \<open>
  C10. \<open>FilterCreateControlDevice\<close> assigns \<open>ControlDevice\<close> only when the
  count is one and every step of the creation protocol succeeds. Then the
  assignment is its last call, it comes right after
  \<open>WdfControlFinishInitializing\<close> on the same handle, and the object the
  handle names has its name, its symbolic link and its queue and has finished
  initialising. In every other case \<open>ControlDevice\<close> is not assigned and
  keeps its value.
\<close>

theorem handle_assigned_last:
  "if length (FilterDeviceCollection s) = 1 \<and> creates e
   then fst (FilterCreateControlDevice e Device s) = STATUS_SUCCESS
      \<and> ControlDevice (snd (FilterCreateControlDevice e Device s)) = Handle (Suc (next_handle s))
      \<and> (\<exists>pre. logged_since s (snd (FilterCreateControlDevice e Device s)) =
             pre @ [(False, ControlFinishInitializing (Handle (Suc (next_handle s)))),
                    (False, AssignControlDevice (Handle (Suc (next_handle s))))]
           \<and> assignments pre = [])
      \<and> control_objects (snd (FilterCreateControlDevice e Device s)) (Handle (Suc (next_handle s))) =
          Some \<lparr> made_from = Some \<lparr> exclusive = False, name_assigned = True \<rparr>,
                 symbolic_link = True, default_queue = True, finished_initializing = True \<rparr>
   else ControlDevice (snd (FilterCreateControlDevice e Device s)) = ControlDevice s
      \<and> assignments (logged_since s (snd (FilterCreateControlDevice e Device s))) = []"
proof (cases "length (FilterDeviceCollection s) = 1 \<and> creates e")
  case True
  then have one: "length (FilterDeviceCollection s) = 1" and c: "creates e"
    by simp_all
  obtain pre where pre:
    "log (snd (FilterCreateControlDevice e Device s)) =
       log (snd (FilterCreateControlDevice_check s)) @ pre @
         [(False, ControlFinishInitializing (Handle (Suc (next_handle s)))),
          (False, AssignControlDevice (Handle (Suc (next_handle s))))]"
    and none: "assignments pre = []"
    using create_published(1) [OF c, of Device "snd (FilterCreateControlDevice_check s)"] one
    by (auto simp add: FilterCreateControlDevice_eq check_eq)
  have "logged_since s (snd (FilterCreateControlDevice e Device s)) =
          ([(FilterDeviceCollectionLock s, WaitLockAcquire),
            (True, CollectionGetCount (length (FilterDeviceCollection s))),
            (True, WaitLockRelease)] @ pre) @
          [(False, ControlFinishInitializing (Handle (Suc (next_handle s)))),
           (False, AssignControlDevice (Handle (Suc (next_handle s))))]"
    using logged_since_check [OF pre] by simp
  moreover have "assignments ([(FilterDeviceCollectionLock s, WaitLockAcquire),
            (True, CollectionGetCount (length (FilterDeviceCollection s))),
            (True, WaitLockRelease)] @ pre) = []"
    using none by (simp add: assignments_append) (simp add: assignments_def)
  ultimately have ex: "\<exists>pre. logged_since s (snd (FilterCreateControlDevice e Device s)) =
             pre @ [(False, ControlFinishInitializing (Handle (Suc (next_handle s)))),
                    (False, AssignControlDevice (Handle (Suc (next_handle s))))]
           \<and> assignments pre = []"
    by blast
  have st: "fst (FilterCreateControlDevice e Device s) = STATUS_SUCCESS"
    using create_status_iff [of e Device "snd (FilterCreateControlDevice_check s)"] one c
    by (simp add: FilterCreateControlDevice_eq)
  have obj: "control_objects (snd (FilterCreateControlDevice e Device s)) (Handle (Suc (next_handle s))) =
          Some \<lparr> made_from = Some \<lparr> exclusive = False, name_assigned = True \<rparr>,
                 symbolic_link = True, default_queue = True, finished_initializing = True \<rparr>"
    using create_published(2) [OF c, of Device "snd (FilterCreateControlDevice_check s)"] one
    by (simp add: FilterCreateControlDevice_eq check_eq)
  show ?thesis
    using True ex st obj by (simp add: FilterCreateControlDevice_ControlDevice)
next
  case False
  obtain t where t: "log (snd (FilterCreateControlDevice e Device s)) =
      log (snd (FilterCreateControlDevice_check s)) @ t"
    using create_log_prefix [of e Device "length (FilterDeviceCollection s) = 1"
        "snd (FilterCreateControlDevice_check s)"]
    by (auto simp add: FilterCreateControlDevice_eq)
  have "assignments (drop (length (log (snd (FilterCreateControlDevice_check s))))
          (log (snd (FilterCreateControlDevice e Device s)))) = []"
    using create_unpublished [of "length (FilterDeviceCollection s) = 1" e
        "snd (FilterCreateControlDevice_check s)" Device] False
    by (simp add: FilterCreateControlDevice_eq)
  then have "assignments t = []"
    by (simp add: t)
  then have none: "assignments (logged_since s (snd (FilterCreateControlDevice e Device s))) = []"
    by (simp add: logged_since_check [OF t] assignments_append) (simp add: assignments_def)
  have same: "ControlDevice (snd (FilterCreateControlDevice e Device s)) = ControlDevice s"
    using False by (auto simp add: FilterCreateControlDevice_ControlDevice)
  show ?thesis
    by (subst if_not_P [OF False]) (simp add: none same)
qed

text \<open>The first instance: every step succeeds, and the symbolic link fails.\<close>

theorem handle_assigned_last_witness:
  "fst (FilterCreateControlDevice obliging (Handle 0) first_registered) = STATUS_SUCCESS
   \<and> ControlDevice (snd (FilterCreateControlDevice obliging (Handle 0) first_registered))
       = Handle 2
   \<and> ControlDevice first_registered = NULL
   \<and> ControlDevice (snd (FilterCreateControlDevice alias_taken (Handle 0) first_registered))
       = NULL"
  using handle_assigned_last [of first_registered obliging "Handle 0"]
    handle_assigned_last [of first_registered alias_taken "Handle 0"]
  by (simp add: creates_def alias_taken_def obliging_def NT_SUCCESS_STATUS_SUCCESS
      not_NT_SUCCESS_COLLISION first_registered_eq initial_state_def)

end
